theory Spec2Isabelle
  imports Complex_Main "HOL-Library.Log_Nat" "HOL-Library.Multiset"
begin

section \<open>Python text: strings of code points\<close>

text \<open>
  A Python \<open>str\<close> is a sequence of Unicode code points, so the model of a string is a
  list of natural numbers. ASCII text is written with \<open>ustr\<close>; the Hangul syllables the
  source matches on are named constants.
\<close>

type_synonym ustring = "nat list"

text \<open>The exceptions the modelled code can raise.\<close>

datatype error =
  AttributeError | TypeError | OverflowError | ValueError | ZeroDivisionError | NavigationError

definition ustr :: "string \<Rightarrow> ustring" where
  "ustr cs = map of_char cs"

definition EOK :: nat where "EOK = 50613"      \<comment> \<open>U+C5B5, the unit 100,000,000\<close>
definition MAN :: nat where "MAN = 47564"      \<comment> \<open>U+B9CC, the unit 10,000\<close>
definition CHEON :: nat where "CHEON = 52380"  \<comment> \<open>U+CC9C, thousand\<close>
definition WON :: nat where "WON = 50896"      \<comment> \<open>U+C6D0, the currency marker\<close>

text \<open>
  \<open>\d\<close> in a \<open>str\<close> pattern, \<open>int()\<close> and \<open>float()\<close> accept every Unicode decimal digit
  (category Nd). These come in runs of ten consecutive code points valued 0 to 9; the
  list holds the first code point of each run (Unicode 14.0).
\<close>

definition nd_starts :: "nat list" where
  "nd_starts = [48, 1632, 1776, 1984, 2406, 2534, 2662, 2790, 2918, 3046, 3174, 3302,
     3430, 3558, 3664, 3792, 3872, 4160, 4240, 6112, 6160, 6470, 6608, 6784, 6800, 6992,
     7088, 7232, 7248, 42528, 43216, 43264, 43472, 43504, 43600, 44016, 65296, 66720,
     68912, 69734, 69872, 69942, 70096, 70384, 70736, 70864, 71248, 71360, 71472, 71904,
     72016, 72784, 73040, 73120, 92768, 92864, 93008, 120782, 120792, 120802, 120812,
     120822, 123200, 123632, 125264, 130032]"

definition is_digit :: "nat \<Rightarrow> bool" where
  "is_digit c = list_ex (\<lambda>s. s \<le> c \<and> c < s + 10) nd_starts"

definition digit_val :: "nat \<Rightarrow> nat" where
  "digit_val c = (case filter (\<lambda>s. s \<le> c \<and> c < s + 10) nd_starts of
                    [] \<Rightarrow> 0 | s # _ \<Rightarrow> c - s)"

text \<open>\<open>str.isspace\<close>, which is also \<open>\s\<close> in a \<open>str\<close> pattern.\<close>

definition is_space :: "nat \<Rightarrow> bool" where
  "is_space c = (c \<in> set [9, 10, 11, 12, 13, 28, 29, 30, 31, 32, 133, 160, 5760, 8192,
     8193, 8194, 8195, 8196, 8197, 8198, 8199, 8200, 8201, 8202, 8232, 8233, 8239, 8287,
     12288])"

definition py_strip :: "ustring \<Rightarrow> ustring" where
  "py_strip s = rev (dropWhile is_space (rev (dropWhile is_space s)))"

text \<open>\<open>s.replace(c, "")\<close> for a one-character \<open>c\<close>.\<close>

definition remove_char :: "nat \<Rightarrow> ustring \<Rightarrow> ustring" where
  "remove_char c s = filter (\<lambda>x. x \<noteq> c) s"

text \<open>The number a non-empty string of decimal digits denotes.\<close>

definition digits_value :: "ustring \<Rightarrow> int" where
  "digits_value ds = foldl (\<lambda>acc c. 10 * acc + int (digit_val c)) 0 ds"

text \<open>
  \<open>int(s)\<close> on a non-empty string of decimal digits. The interpreter refuses a string
  of more than \<open>sys.get_int_max_str_digits()\<close> digits, leading zeros counted, with
  ValueError; the limit is 4300 unless the process changes it, and the source does not.
\<close>

definition max_str_digits :: nat where
  "max_str_digits = 4300"

definition py_int :: "ustring \<Rightarrow> error + int" where
  "py_int ds = (if max_str_digits < length ds then Inl ValueError else Inr (digits_value ds))"

text \<open>\<open>int(s) * k\<close>.\<close>

definition py_int_times :: "ustring \<Rightarrow> int \<Rightarrow> error + int" where
  "py_int_times ds k = (case py_int ds of Inl e \<Rightarrow> Inl e | Inr n \<Rightarrow> Inr (n * k))"

section \<open>Regular expressions\<close>

text \<open>
  The patterns of the source use literals, character classes, greedy repetition of a
  single character class, alternatives, optional parts, capture groups and \<open>$\<close>
  (the end of the text, or the position before a final newline). The matcher
  returns every way the pattern can match a prefix of the text, in the order Python's
  backtracking tries them, as the remaining text with the captured groups.
\<close>

datatype rx =
    Lit nat
  | Cls "nat \<Rightarrow> bool"
  | Rep "nat \<Rightarrow> bool" nat "nat option"
  | Seq rx rx
  | Alt rx rx
  | Opt rx
  | Grp nat rx
  | Eos
  | Eps

type_synonym caps = "(nat \<times> ustring) list"

primrec rx_match :: "rx \<Rightarrow> ustring \<Rightarrow> caps \<Rightarrow> (ustring \<times> caps) list" where
  "rx_match (Lit c) s cs = (case s of [] \<Rightarrow> [] | x # xs \<Rightarrow> if x = c then [(xs, cs)] else [])"
| "rx_match (Cls p) s cs = (case s of [] \<Rightarrow> [] | x # xs \<Rightarrow> if p x then [(xs, cs)] else [])"
| "rx_match (Rep p lo hi) s cs =
     (let n = length (takeWhile p s);
          m = (case hi of None \<Rightarrow> n | Some h \<Rightarrow> min n h)
      in map (\<lambda>k. (drop k s, cs)) (rev [lo..<Suc m]))"
| "rx_match (Seq a b) s cs = concat (map (\<lambda>(s', cs'). rx_match b s' cs') (rx_match a s cs))"
| "rx_match (Alt a b) s cs = rx_match a s cs @ rx_match b s cs"
| "rx_match (Opt a) s cs = rx_match a s cs @ [(s, cs)]"
| "rx_match (Grp i a) s cs =
     map (\<lambda>(s', cs'). (s', (i, take (length s - length s') s) # cs')) (rx_match a s cs)"
| "rx_match Eos s cs = (if s = [] \<or> s = [10] then [(s, cs)] else [])"
| "rx_match Eps s cs = [(s, cs)]"

text \<open>A literal string in a pattern.\<close>

fun lits :: "ustring \<Rightarrow> rx" where
  "lits [] = Eps"
| "lits (c # cs) = Seq (Lit c) (lits cs)"

text \<open>\<open>re.search\<close>: the first way to match at the leftmost position that matches at all.\<close>

fun rx_search :: "rx \<Rightarrow> ustring \<Rightarrow> caps option" where
  "rx_search r [] = (case rx_match r [] [] of (_, cs) # _ \<Rightarrow> Some cs | [] \<Rightarrow> None)"
| "rx_search r (x # xs) =
     (case rx_match r (x # xs) [] of (_, cs) # _ \<Rightarrow> Some cs | [] \<Rightarrow> rx_search r xs)"

text \<open>\<open>re.fullmatch\<close>, as a truth value.\<close>

definition rx_fullmatch :: "rx \<Rightarrow> ustring \<Rightarrow> bool" where
  "rx_fullmatch r s = list_ex (\<lambda>(rest, cs). rest = []) (rx_match r s [])"

text \<open>\<open>m.group(i)\<close> for a group that took part in the match.\<close>

definition group :: "caps \<Rightarrow> nat \<Rightarrow> ustring" where
  "group cs i = (case map_of cs i of None \<Rightarrow> [] | Some g \<Rightarrow> g)"

abbreviation digits1 :: rx where "digits1 \<equiv> Rep is_digit 1 None"

section \<open>Floating point\<close>

text \<open>
  A finite IEEE 754 double is modelled by its exact rational value. \<open>to_double\<close> rounds
  a rational to the nearest double, ties to even, with gradual underflow; \<open>None\<close> is
  the overflow to infinity.
\<close>

definition pow2 :: "int \<Rightarrow> rat" where
  "pow2 e = (if 0 \<le> e then 2 ^ nat e else 1 / 2 ^ nat (- e))"

text \<open>\<open>flog2 q\<close> is the exponent \<open>e\<close> with \<open>2^e \<le> q < 2^(e+1)\<close>, for positive \<open>q\<close>.\<close>

definition flog2 :: "rat \<Rightarrow> int" where
  "flog2 q = (if 1 \<le> q then bitlen \<lfloor>q\<rfloor> - 1 else - bitlen (\<lceil>1 / q\<rceil> - 1))"

definition round_half_even :: "rat \<Rightarrow> int" where
  "round_half_even x =
     (let f = \<lfloor>x\<rfloor>; d = x - of_int f
      in if d < 1 / 2 then f else if 1 / 2 < d then f + 1 else if even f then f else f + 1)"

definition to_double :: "rat \<Rightarrow> rat option" where
  "to_double q =
     (if q = 0 then Some 0
      else let a = \<bar>q\<bar>;
               u = pow2 (max (flog2 a) (- 1022) - 52);
               r = of_int (round_half_even (a / u)) * u
           in if pow2 1024 \<le> r then None else Some (sgn q * r))"

text \<open>
  \<open>float(s)\<close> for \<open>s\<close> matching \<open>\d+(?:\.\d+)?\<close>: the double nearest to the decimal
  (\<open>float\<close> has no limit on the number of digits).
\<close>

definition decimal_value :: "ustring \<Rightarrow> rat" where
  "decimal_value s =
     (let ip = takeWhile is_digit s; fp = drop (Suc (length ip)) s
      in of_int (digits_value ip) + of_int (digits_value fp) / 10 ^ length fp)"

definition py_float :: "ustring \<Rightarrow> rat option" where
  "py_float s = to_double (decimal_value s)"

text \<open>
  \<open>int(float(s) * n)\<close> for a non-negative integer \<open>n\<close> below \<open>2^53\<close>: the product is
  rounded once more, and \<open>int\<close> truncates. An infinite operand or product makes \<open>int\<close>
  raise OverflowError, which is \<open>None\<close> here.
\<close>

definition int_of_float_times :: "ustring \<Rightarrow> int \<Rightarrow> int option" where
  "int_of_float_times s n =
     (case py_float s of
        None \<Rightarrow> None
      | Some x \<Rightarrow> (case to_double (x * of_int n) of
                     None \<Rightarrow> None
                   | Some y \<Rightarrow> Some \<lfloor>y\<rfloor>))"

section \<open>The currency parser\<close>

text \<open>The patterns of \<open>parse_kr_money_to_won\<close>, in the order the source tries them.\<close>

definition re_eok :: rx where
  "re_eok = Seq (Grp 1 (Seq digits1 (Opt (Seq (Lit (of_char CHR ''.'')) digits1)))) (Lit EOK)"

definition re_eok_man :: rx where
  "re_eok_man = Seq (Lit EOK) (Seq (Grp 1 digits1) (Lit MAN))"

definition re_eok_end :: rx where
  "re_eok_end = Seq (Lit EOK) (Seq (Grp 1 digits1) Eos)"

definition re_eok_cheon :: rx where
  "re_eok_cheon = Seq (Lit EOK) (Seq (Grp 1 digits1) (Lit CHEON))"

definition re_man :: rx where
  "re_man = Seq (Grp 1 digits1) (Lit MAN)"

definition re_cheon :: rx where
  "re_cheon = Seq (Grp 1 digits1) (Seq (Lit CHEON) (Opt (Lit MAN)))"

text \<open>
  The amount after the eok quantity, in man: digits and \<open>MAN\<close> after \<open>EOK\<close>, else
  digits after \<open>EOK\<close> up to the end of the text, else digits and \<open>CHEON\<close> after \<open>EOK\<close>.
  The calls of \<open>int\<close> here and below are outside any \<open>try\<close>.
\<close>

definition man_after_eok :: "ustring \<Rightarrow> error + int" where
  "man_after_eok t =
     (case rx_search re_eok_man t of
        Some m2 \<Rightarrow> py_int (group m2 1)
      | None \<Rightarrow>
          (case rx_search re_eok_end t of
             Some m2 \<Rightarrow> py_int (group m2 1)
           | None \<Rightarrow>
               (case rx_search re_eok_cheon t of
                  Some m2 \<Rightarrow> py_int_times (group m2 1) 1000
                | None \<Rightarrow> Inr 0)))"

text \<open>The amount in man when the text has no eok quantity.\<close>

definition man_without_eok :: "ustring \<Rightarrow> error + int" where
  "man_without_eok t =
     (case rx_search re_man t of
        Some m \<Rightarrow> py_int (group m 1)
      | None \<Rightarrow>
          (case rx_search re_cheon t of
             Some m \<Rightarrow> py_int_times (group m 1) 1000
           | None \<Rightarrow> Inr 0))"

text \<open>
  The amounts \<open>total\<close> and \<open>man\<close> of the source, before its last two statements. The
  eok product is computed inside \<open>try ... except: pass\<close>: when it overflows, \<open>total\<close>
  stays 0.
\<close>

definition eok_and_man :: "ustring \<Rightarrow> error + int \<times> int" where
  "eok_and_man t =
     (case rx_search re_eok t of
        Some m \<Rightarrow>
          (case man_after_eok t of
             Inl e \<Rightarrow> Inl e
           | Inr man \<Rightarrow>
               Inr ((case int_of_float_times (group m 1) 100000000 of
                       Some v \<Rightarrow> 0 + v
                     | None \<Rightarrow> 0),
                    man))
      | None \<Rightarrow>
          (case man_without_eok t of
             Inl e \<Rightarrow> Inl e
           | Inr man \<Rightarrow> Inr (0, man)))"

text \<open>
  The result is \<open>Inl\<close> an exception, \<open>Inr None\<close> for Python's \<open>None\<close>, or \<open>Inr (Some n)\<close>
  for the integer \<open>n\<close>.
\<close>

definition parse_kr_money_to_won :: "ustring \<Rightarrow> error + int option" where
  "parse_kr_money_to_won s =
     (if s = [] then Inr None
      else
        let t0 = remove_char (of_char CHR '','') (remove_char (of_char CHR '' '') (py_strip s));
            has_won = (WON \<in> set t0);
            t = remove_char WON t0
        in case eok_and_man t of
             Inl e \<Rightarrow> Inl e
           | Inr (tot, man) \<Rightarrow>
               if tot = 0 \<and> man = 0 \<and> rx_fullmatch digits1 t
               then (case py_int t of
                       Inl e \<Rightarrow> Inl e
                     | Inr n \<Rightarrow> Inr (Some (if has_won then n else n * 10000)))
               else Inr (Some (tot + man * 10000)))"

section \<open>Grid sweep\<close>

text \<open>
  The pixel offsets \<open>(dx, dy)\<close> the three nested loops of \<open>grid_sweep\<close> run through, in
  units of \<open>step_px\<close>: for each ring \<open>r\<close> from 1 to \<open>rings\<close>, each column \<open>dx\<close> from \<open>-r\<close> to
  \<open>r\<close>, and the two rows \<open>-r\<close> and \<open>r\<close>.
\<close>

definition sweep_offsets :: "int \<Rightarrow> (int \<times> int) list" where
  "sweep_offsets rings =
     concat (map (\<lambda>r. concat (map (\<lambda>dx. map (\<lambda>dy. (dx, dy)) [- r, r]) [- r..r])) [1..rings])"

text \<open>Building a list by calls that may raise: the first exception ends it.\<close>

fun map_raising :: "('a \<Rightarrow> error + 'b) \<Rightarrow> 'a list \<Rightarrow> error + 'b list" where
  "map_raising f [] = Inr []"
| "map_raising f (x # xs) =
     (case f x of
        Inl e \<Rightarrow> Inl e
      | Inr y \<Rightarrow> (case map_raising f xs of Inl e \<Rightarrow> Inl e | Inr ys \<Rightarrow> Inr (y # ys)))"

text \<open>
  The list \<open>coords\<close> that \<open>grid_sweep\<close> builds before it moves the map. The projection
  functions compute in floating point and may raise (a logarithm or a division at a
  pole, an overflow of \<open>sinh\<close>); they are parameters here, over any type \<open>'f\<close> of
  floats, as is \<open>offset c d step\<close> for \<open>c + d * step\<close>.
\<close>

definition grid_sweep_coords ::
  "('f \<Rightarrow> 'f \<Rightarrow> 'f \<Rightarrow> error + 'f \<times> 'f) \<Rightarrow> ('f \<Rightarrow> 'f \<Rightarrow> 'f \<Rightarrow> error + 'f \<times> 'f)
     \<Rightarrow> ('f \<Rightarrow> int \<Rightarrow> 'f \<Rightarrow> 'f) \<Rightarrow> 'f \<Rightarrow> 'f \<Rightarrow> 'f \<Rightarrow> int \<Rightarrow> 'f \<Rightarrow> error + ('f \<times> 'f) list" where
  "grid_sweep_coords ll_to_pixel pixel_to_ll offset center_lat center_lon zoom rings step_px =
     (case ll_to_pixel center_lat center_lon zoom of
        Inl e \<Rightarrow> Inl e
      | Inr (cx, cy) \<Rightarrow>
          map_raising
            (\<lambda>(dx, dy). pixel_to_ll (offset cx dx step_px) (offset cy dy step_px) zoom)
            (sweep_offsets rings))"

section \<open>JSON payloads\<close>

text \<open>
  The value \<open>response.json()\<close> returns, which is \<open>json.loads\<close> of the body. A number
  with a fraction or an exponent is a float: a finite one is modelled by its exact
  value; a literal too large for a double is an infinity, and \<open>json.loads\<close> also
  accepts the literals \<open>Infinity\<close>, \<open>-Infinity\<close> and \<open>NaN\<close>. A dict is the list of its
  items, looked up with \<open>map_of\<close>.
\<close>

datatype pyfloat = Fin rat | PInf | NInf | NaN

datatype json =
    JNull
  | JBool bool
  | JInt int
  | JFloat pyfloat
  | JStr ustring
  | JList "json list"
  | JObj "(ustring \<times> json) list"

type_synonym dict = "(ustring \<times> json) list"

fun truthy :: "json \<Rightarrow> bool" where
  "truthy JNull = False"
| "truthy (JBool b) = b"
| "truthy (JInt i) = (i \<noteq> 0)"
| "truthy (JFloat f) = (f \<noteq> Fin 0)"
| "truthy (JStr s) = (s \<noteq> [])"
| "truthy (JList l) = (l \<noteq> [])"
| "truthy (JObj d) = (d \<noteq> [])"

text \<open>\<open>a or b\<close>.\<close>

definition py_or :: "json \<Rightarrow> json \<Rightarrow> json" where
  "py_or a b = (if truthy a then a else b)"

text \<open>\<open>d.get(k)\<close> and \<open>d.get(k, dflt)\<close> on a dict.\<close>

definition dict_get :: "dict \<Rightarrow> ustring \<Rightarrow> json \<Rightarrow> json" where
  "dict_get d k dflt = (case map_of d k of None \<Rightarrow> dflt | Some v \<Rightarrow> v)"

abbreviation get :: "dict \<Rightarrow> ustring \<Rightarrow> json" where
  "get d k \<equiv> dict_get d k JNull"

text \<open>\<open>x.get\<close> exists only on a dict: anything else raises AttributeError.\<close>

fun as_dict :: "json \<Rightarrow> error + dict" where
  "as_dict (JObj d) = Inr d"
| "as_dict _ = Inl AttributeError"

text \<open>
  \<open>x.upper()\<close> and \<open>x.strip()\<close> exist only on a string. Upper-casing is modelled on the
  ASCII letters; the source only compares its result with \<open>VL\<close> and \<open>A1\<close>, and no
  other code point has an upper case made of these characters.
\<close>

definition py_upper :: "ustring \<Rightarrow> ustring" where
  "py_upper s = map (\<lambda>c. if 97 \<le> c \<and> c \<le> 122 then c - 32 else c) s"

fun str_upper :: "json \<Rightarrow> error + ustring" where
  "str_upper (JStr s) = Inr (py_upper s)"
| "str_upper _ = Inl AttributeError"

fun str_strip :: "json \<Rightarrow> error + ustring" where
  "str_strip (JStr s) = Inr (py_strip s)"
| "str_strip _ = Inl AttributeError"

text \<open>\<open>p in s\<close> on strings.\<close>

fun has_prefix :: "ustring \<Rightarrow> ustring \<Rightarrow> bool" where
  "has_prefix [] s = True"
| "has_prefix (p # ps) [] = False"
| "has_prefix (p # ps) (c # cs) = (p = c \<and> has_prefix ps cs)"

fun contains :: "ustring \<Rightarrow> ustring \<Rightarrow> bool" where
  "contains p [] = (p = [])"
| "contains p (c # cs) = (has_prefix p (c # cs) \<or> contains p cs)"

text \<open>
  \<open>str(v)\<close>. The text of a finite float, a list or a dict is not modelled: it is
  whatever the parameter \<open>render\<close> gives.
\<close>

fun nat_digits :: "nat \<Rightarrow> ustring" where
  "nat_digits n = (if n < 10 then [48 + n] else nat_digits (n div 10) @ [48 + n mod 10])"

declare nat_digits.simps [simp del]

definition int_digits :: "int \<Rightarrow> ustring" where
  "int_digits i = (if i < 0 then of_char CHR ''-'' # nat_digits (nat (- i)) else nat_digits (nat i))"

fun py_str :: "(json \<Rightarrow> ustring) \<Rightarrow> json \<Rightarrow> ustring" where
  "py_str render (JStr s) = s"
| "py_str render (JInt i) = int_digits i"
| "py_str render (JBool b) = (if b then ustr ''True'' else ustr ''False'')"
| "py_str render JNull = ustr ''None''"
| "py_str render (JFloat PInf) = ustr ''inf''"
| "py_str render (JFloat NInf) = ustr ''-inf''"
| "py_str render (JFloat NaN) = ustr ''nan''"
| "py_str render (JFloat (Fin r)) = render (JFloat (Fin r))"
| "py_str render (JList l) = render (JList l)"
| "py_str render (JObj d) = render (JObj d)"

text \<open>
  Members of a Python set: \<open>None\<close>, numbers and strings are hashable, lists and dicts
  are not (TypeError). Equal numbers are one member whatever their type, \<open>True\<close> is 1.
  Every \<open>NaN\<close> that \<open>json.loads\<close> returns is the same object, and a set finds an
  object that is already in it, so \<open>NaN\<close> is one member too.
\<close>

datatype pkey = KNone | KNum rat | KInf bool | KNaN | KStr ustring

fun key_of :: "json \<Rightarrow> error + pkey" where
  "key_of JNull = Inr KNone"
| "key_of (JBool b) = Inr (KNum (if b then 1 else 0))"
| "key_of (JInt i) = Inr (KNum (of_int i))"
| "key_of (JFloat (Fin r)) = Inr (KNum r)"
| "key_of (JFloat PInf) = Inr (KInf True)"
| "key_of (JFloat NInf) = Inr (KInf False)"
| "key_of (JFloat NaN) = Inr KNaN"
| "key_of (JStr s) = Inr (KStr s)"
| "key_of (JList l) = Inl TypeError"
| "key_of (JObj d) = Inl TypeError"

text \<open>\<open>isinstance(v, int)\<close> with the value (\<open>bool\<close> is a subclass of \<open>int\<close>).\<close>

fun int_value :: "json \<Rightarrow> int option" where
  "int_value (JInt i) = Some i"
| "int_value (JBool b) = Some (if b then 1 else 0)"
| "int_value _ = None"

text \<open>
  \<open>v > c\<close> for an integer \<open>c\<close>: numbers compare by value, an infinity is above or below
  every integer, \<open>NaN\<close> is above nothing; anything else raises TypeError (\<open>None\<close> here).
\<close>

fun gt_int :: "json \<Rightarrow> int \<Rightarrow> bool option" where
  "gt_int (JInt i) c = Some (c < i)"
| "gt_int (JBool b) c = Some (c < (if b then 1 else 0))"
| "gt_int (JFloat (Fin r)) c = Some (of_int c < r)"
| "gt_int (JFloat PInf) c = Some True"
| "gt_int (JFloat NInf) c = Some False"
| "gt_int (JFloat NaN) c = Some False"
| "gt_int JNull c = None"
| "gt_int (JStr s) c = None"
| "gt_int (JList l) c = None"
| "gt_int (JObj d) c = None"

text \<open>\<open>int(x)\<close> on a finite float truncates towards zero.\<close>

definition py_trunc :: "rat \<Rightarrow> int" where
  "py_trunc r = (if 0 \<le> r then \<lfloor>r\<rfloor> else \<lceil>r\<rceil>)"

text \<open>
  \<open>int(v)\<close> for a number: OverflowError on an infinity, ValueError on \<open>NaN\<close>. (The source
  calls it only after \<open>v > c\<close> has succeeded, so \<open>v\<close> is a number there.)
\<close>

fun int_of_number :: "json \<Rightarrow> error + int" where
  "int_of_number (JInt i) = Inr i"
| "int_of_number (JBool b) = Inr (if b then 1 else 0)"
| "int_of_number (JFloat (Fin r)) = Inr (py_trunc r)"
| "int_of_number (JFloat PInf) = Inl OverflowError"
| "int_of_number (JFloat NInf) = Inl OverflowError"
| "int_of_number (JFloat NaN) = Inl ValueError"
| "int_of_number JNull = Inl TypeError"
| "int_of_number (JStr s) = Inl TypeError"
| "int_of_number (JList l) = Inl TypeError"
| "int_of_number (JObj d) = Inl TypeError"

section \<open>Session buffers and response ingestion\<close>

record meta =
  meta_name :: json
  meta_count :: int

record session =
  capture :: bool
  complex_list :: "json list"
  seen_complex :: "ustring set"
  article_list :: "json list"
  seen_article :: "pkey set"
  trade_history :: "json list"
  seen_trade :: "(pkey \<times> pkey \<times> pkey \<times> pkey) set"
  complex_meta :: "ustring \<rightharpoonup> meta"

text \<open>
  An observed response: its URL and the outcome of \<open>response.json()\<close>, \<open>None\<close> when
  that call raises.
\<close>

type_synonym response = "ustring \<times> json option"

text \<open>
  A loop body either raises before changing anything or returns the new state. The
  loop stops at the first exception and keeps what earlier iterations did.
\<close>

fun run_items :: "('s \<Rightarrow> json \<Rightarrow> error + 's) \<Rightarrow> 's \<Rightarrow> json list \<Rightarrow> 's \<times> error option" where
  "run_items f s [] = (s, None)"
| "run_items f s (x # xs) =
     (case f s x of Inl e \<Rightarrow> (s, Some e) | Inr s' \<Rightarrow> run_items f s' xs)"

definition villa_words :: "ustring list" where
  "villa_words = [[48716, 46972], [50672, 47549], [45796, 49464, 45824]]"

text \<open>\<open>any(k in name for k in villa_words)\<close>: substring, element or key, as \<open>name\<close> is.\<close>

fun any_villa_word :: "json \<Rightarrow> error + bool" where
  "any_villa_word (JStr s) = Inr (list_ex (\<lambda>k. contains k s) villa_words)"
| "any_villa_word (JList l) = Inr (list_ex (\<lambda>k. JStr k \<in> set l) villa_words)"
| "any_villa_word (JObj d) = Inr (list_ex (\<lambda>k. k \<in> fst ` set d) villa_words)"
| "any_villa_word _ = Inl TypeError"

definition is_villa :: "json \<Rightarrow> json \<Rightarrow> error + bool" where
  "is_villa code_v name =
     (case str_upper code_v of
        Inl e \<Rightarrow> Inl e
      | Inr code \<Rightarrow> if code \<noteq> [] then Inr (code = ustr ''VL'') else any_villa_word name)"

definition is_villa_marker :: "dict \<Rightarrow> error + bool" where
  "is_villa_marker it =
     is_villa
       (py_or (get it (ustr ''realEstateTypeCode''))
          (py_or (get it (ustr ''estateType'')) (py_or (get it (ustr ''rletTpCd'')) (JStr []))))
       (py_or (get it (ustr ''realEstateTypeName''))
          (py_or (get it (ustr ''estateTypeName'')) (py_or (get it (ustr ''rletTpNm'')) (JStr []))))"

definition is_villa_article :: "dict \<Rightarrow> error + bool" where
  "is_villa_article a =
     is_villa
       (py_or (get a (ustr ''realEstateTypeCode'')) (py_or (get a (ustr ''rletTpCd'')) (JStr [])))
       (py_or (get a (ustr ''realEstateTypeName'')) (py_or (get a (ustr ''rletTpNm'')) (JStr [])))"

text \<open>\<open>complex_meta.setdefault(cno, {"name": name, "count": 0})\<close>.\<close>

definition meta_setdefault :: "ustring \<Rightarrow> json \<Rightarrow> session \<Rightarrow> session" where
  "meta_setdefault cno name s =
     (case complex_meta s cno of
        Some m \<Rightarrow> s
      | None \<Rightarrow> s\<lparr>complex_meta := (complex_meta s)(cno \<mapsto> \<lparr>meta_name = name, meta_count = 0\<rparr>)\<rparr>)"

text \<open>The id, the name and the count a marker carries (\<open>cno\<close>, \<open>name\<close>, \<open>cnt\<close>).\<close>

definition marker_cno :: "(json \<Rightarrow> ustring) \<Rightarrow> dict \<Rightarrow> ustring" where
  "marker_cno render it =
     py_str render
       (py_or (get it (ustr ''markerId''))
          (py_or (get it (ustr ''complexNo'')) (py_or (get it (ustr ''houseNo'')) (JStr []))))"

definition marker_name :: "dict \<Rightarrow> json" where
  "marker_name it = py_or (get it (ustr ''complexName'')) (py_or (get it (ustr ''houseName'')) (JStr []))"

definition marker_cnt :: "dict \<Rightarrow> json" where
  "marker_cnt it =
     py_or (get it (ustr ''articleCount''))
       (py_or (get it (ustr ''dealCount''))
          (py_or (get it (ustr ''totalCount'')) (py_or (get it (ustr ''cnt'')) (JInt 0))))"

text \<open>
  The asset-type test of channel 1: a marker from the houses endpoint is skipped
  unless it is a villa. \<open>Inr True\<close> lets the marker through.
\<close>

definition marker_wanted :: "ustring \<Rightarrow> dict \<Rightarrow> error + bool" where
  "marker_wanted url it =
     (if contains (ustr ''houses/single-markers'') url then is_villa_marker it else Inr True)"

text \<open>The metadata entry of \<open>cno\<close> after a marker with \<open>name\<close> and \<open>cnt\<close> was seen.\<close>

definition meta_update :: "ustring \<Rightarrow> json \<Rightarrow> json \<Rightarrow> session \<Rightarrow> session" where
  "meta_update cno name cnt s =
     (let s2 = meta_setdefault cno name s;
          m = (case complex_meta s2 cno of
                 Some m \<Rightarrow> m
               | None \<Rightarrow> \<lparr>meta_name = name, meta_count = 0\<rparr>);
          m1 = m\<lparr>meta_name := py_or name (meta_name m)\<rparr>;
          m2 = (case int_value cnt of
                  Some c \<Rightarrow> if meta_count m1 < c then m1\<lparr>meta_count := c\<rparr> else m1
                | None \<Rightarrow> m1)
      in s2\<lparr>complex_meta := (complex_meta s2)(cno \<mapsto> m2)\<rparr>)"

text \<open>Channel 1, one marker of the payload.\<close>

definition marker_item :: "(json \<Rightarrow> ustring) \<Rightarrow> ustring \<Rightarrow> session \<Rightarrow> json \<Rightarrow> error + session" where
  "marker_item render url s it =
     (case as_dict it of
        Inl e \<Rightarrow> Inl e
      | Inr d \<Rightarrow>
         (case marker_wanted url d of
            Inl e \<Rightarrow> Inl e
          | Inr False \<Rightarrow> Inr s
          | Inr True \<Rightarrow>
             (let cno = marker_cno render d;
                  name = marker_name d;
                  cnt = marker_cnt d
              in if cno = [] then Inr s
                 else
                   let s1 = (if cno \<in> seen_complex s then s
                             else s\<lparr>complex_list := complex_list s @ [it],
                                    seen_complex := insert cno (seen_complex s)\<rparr>)
                   in Inr (meta_update cno name cnt s1))))"

definition marker_channel :: "(json \<Rightarrow> ustring) \<Rightarrow> ustring \<Rightarrow> json option \<Rightarrow> session \<Rightarrow> session" where
  "marker_channel render url body s =
     (case body of
        Some (JList items) \<Rightarrow> fst (run_items (marker_item render url) s items)
      | _ \<Rightarrow> s)"

text \<open>The trade-type filter: kept when the code is \<open>A1\<close> or the name is a sale label.\<close>

definition sale_labels :: "ustring list" where
  "sale_labels = [[47588, 47588], ustr ''SALE'']"

definition is_sale :: "ustring \<Rightarrow> ustring \<Rightarrow> bool" where
  "is_sale tcode tname = (\<not> (tcode \<noteq> ustr ''A1'' \<and> tname \<notin> set sale_labels))"

text \<open>\<open>if k not in seen_article: seen_article.add(k); article_list.append(a)\<close>.\<close>

definition add_article :: "json \<Rightarrow> json \<Rightarrow> session \<Rightarrow> error + session \<times> nat" where
  "add_article k a s =
     (case key_of k of
        Inl e \<Rightarrow> Inl e
      | Inr key \<Rightarrow>
          if key \<in> seen_article s then Inr (s, 0)
          else Inr (s\<lparr>article_list := article_list s @ [a],
                      seen_article := insert key (seen_article s)\<rparr>, 1))"

text \<open>Channel 2, one listing of the payload.\<close>

definition article_item :: "ustring \<Rightarrow> session \<Rightarrow> json \<Rightarrow> error + session" where
  "article_item url s a =
     (case as_dict a of
        Inl e \<Rightarrow> Inl e
      | Inr d \<Rightarrow>
         (case (if contains (ustr ''/api/articles/house/'') url then is_villa_article d
                else Inr True) of
            Inl e \<Rightarrow> Inl e
          | Inr False \<Rightarrow> Inr s
          | Inr True \<Rightarrow>
             (case str_upper (py_or (get d (ustr ''tradeType'')) (JStr [])) of
                Inl e \<Rightarrow> Inl e
              | Inr tcode \<Rightarrow>
                 (case str_strip (py_or (get d (ustr ''tradeTypeName'')) (JStr [])) of
                    Inl e \<Rightarrow> Inl e
                  | Inr tname \<Rightarrow>
                      if \<not> is_sale tcode tname then Inr s
                      else
                        let k = get d (ustr ''articleNo'')
                        in if \<not> truthy k then Inr s
                           else (case add_article k a s of
                                   Inl e \<Rightarrow> Inl e
                                 | Inr (s', n) \<Rightarrow> Inr s')))))"

definition re_article_url :: rx where
  "re_article_url =
     Seq (lits (ustr ''/api/articles/''))
       (Seq (Alt (lits (ustr ''complex'')) (lits (ustr ''house'')))
          (Seq (Lit (of_char CHR ''/'')) (Grp 1 digits1)))"

text \<open>The marker id in the URL of a listing response, and the total the payload carries.\<close>

definition url_cno :: "ustring \<Rightarrow> ustring option" where
  "url_cno url = (case rx_search re_article_url url of
                    Some m \<Rightarrow> Some (group m 1)
                  | None \<Rightarrow> None)"

definition listing_total :: "dict \<Rightarrow> json" where
  "listing_total data = py_or (get data (ustr ''totalCount'')) (py_or (get data (ustr ''count'')) (JInt 0))"

text \<open>
  The total count of a listing payload. The entry is created before the comparison,
  so it stays when the comparison raises on a total that is not a number, or when
  \<open>int(total)\<close> raises on an infinite total.
\<close>

definition update_total :: "ustring option \<Rightarrow> json \<Rightarrow> session \<Rightarrow> session \<times> error option" where
  "update_total cno total_v s =
     (case cno of
        None \<Rightarrow> (s, None)
      | Some c \<Rightarrow>
          if \<not> truthy total_v then (s, None)
          else
            let s1 = meta_setdefault c (JStr []) s;
                m = (case complex_meta s1 c of
                       Some m \<Rightarrow> m
                     | None \<Rightarrow> \<lparr>meta_name = JStr [], meta_count = 0\<rparr>)
            in (case gt_int total_v (meta_count m) of
                  None \<Rightarrow> (s1, Some TypeError)
                | Some False \<Rightarrow> (s1, None)
                | Some True \<Rightarrow>
                    (case int_of_number total_v of
                       Inl e \<Rightarrow> (s1, Some e)
                     | Inr n \<Rightarrow>
                         (s1\<lparr>complex_meta := (complex_meta s1)(c \<mapsto> m\<lparr>meta_count := n\<rparr>)\<rparr>, None))))"

definition listing_channel :: "ustring \<Rightarrow> json option \<Rightarrow> session \<Rightarrow> session" where
  "listing_channel url body s =
     (case body of
        None \<Rightarrow> s
      | Some data \<Rightarrow>
         (case as_dict data of
            Inl e \<Rightarrow> s
          | Inr d \<Rightarrow>
             (case update_total (url_cno url) (listing_total d) s of
                (s1, Some e) \<Rightarrow> s1
              | (s1, None) \<Rightarrow>
                 (case py_or (get d (ustr ''articleList''))
                         (py_or (get d (ustr ''articles'')) (JList [])) of
                    JList articles \<Rightarrow> fst (run_items (article_item url) s1 articles)
                  | _ \<Rightarrow> s1))))"

text \<open>Channel 3, one record of the price history.\<close>

definition trade_item :: "session \<Rightarrow> json \<Rightarrow> error + session" where
  "trade_item s t =
     (case as_dict t of
        Inl e \<Rightarrow> Inl e
      | Inr d \<Rightarrow>
         (case (key_of (get d (ustr ''dealDate'')), key_of (get d (ustr ''area'')),
                key_of (get d (ustr ''floor'')), key_of (get d (ustr ''dealPrice''))) of
            (Inr k1, Inr k2, Inr k3, Inr k4) \<Rightarrow>
               if (k1, k2, k3, k4) \<in> seen_trade s then Inr s
               else Inr (s\<lparr>trade_history := trade_history s @ [t],
                           seen_trade := insert (k1, k2, k3, k4) (seen_trade s)\<rparr>)
          | _ \<Rightarrow> Inl TypeError))"

definition price_channel :: "json option \<Rightarrow> session \<Rightarrow> session" where
  "price_channel body s =
     (case body of
        Some (JList items) \<Rightarrow> fst (run_items trade_item s items)
      | _ \<Rightarrow> s)"

text \<open>
  Channel 4. A dict met in a list is looked at for a listing id and not searched
  further; \<open>collect_from\<close> runs outside any \<open>try\<close>, so its exceptions leave the handler.
\<close>

definition fallback_item :: "session \<Rightarrow> dict \<Rightarrow> json \<Rightarrow> error + session \<times> nat" where
  "fallback_item s d it =
     (let k = py_or (get d (ustr ''articleNo'')) (get d (ustr ''atclNo''))
      in if \<not> truthy k then Inr (s, 0)
         else
           (case str_upper (py_or (get d (ustr ''tradeType''))
                              (py_or (get d (ustr ''tradTp'')) (JStr []))) of
              Inl e \<Rightarrow> Inl e
            | Inr tcode \<Rightarrow>
               (case str_strip (py_or (get d (ustr ''tradeTypeName'')) (JStr [])) of
                  Inl e \<Rightarrow> Inl e
                | Inr tname \<Rightarrow>
                    if \<not> is_sale tcode tname then Inr (s, 0) else add_article k it s)))"

text \<open>\<open>added += n\<close> after a call that may have raised.\<close>

fun add_count :: "nat \<Rightarrow> session \<times> (error + nat) \<Rightarrow> session \<times> (error + nat)" where
  "add_count n (s, Inl e) = (s, Inl e)"
| "add_count n (s, Inr m) = (s, Inr (n + m))"

text \<open>The size of a payload, the measure for the recursion of \<open>collect_from\<close>.\<close>

fun jsize :: "json \<Rightarrow> nat" where
  "jsize (JList l) = Suc (sum_list (map jsize l))"
| "jsize (JObj d) = Suc (sum_list (map (\<lambda>kv. jsize (snd kv)) d))"
| "jsize _ = 1"

lemma jsize_pos: "Suc 0 \<le> jsize j"
  by (cases j) auto

lemma jsize_map_of:
  "map_of d k = Some v \<Longrightarrow> jsize v \<le> sum_list (map (\<lambda>kv. jsize (snd kv)) d)"
  by (induction d) (auto split: if_splits)

function collect_from :: "session \<Rightarrow> json \<Rightarrow> session \<times> (error + nat)"
  and collect_values :: "session \<Rightarrow> dict \<Rightarrow> session \<times> (error + nat)"
  and collect_items :: "session \<Rightarrow> json list \<Rightarrow> session \<times> (error + nat)"
where
  "collect_from s (JObj d) =
     (case map_of d (ustr ''articleList'') of
        Some (JList l) \<Rightarrow> collect_items s l
      | _ \<Rightarrow> collect_values s d)"
| "collect_from s (JList l) = collect_items s l"
| "collect_from s JNull = (s, Inr 0)"
| "collect_from s (JBool b) = (s, Inr 0)"
| "collect_from s (JInt i) = (s, Inr 0)"
| "collect_from s (JFloat f) = (s, Inr 0)"
| "collect_from s (JStr t) = (s, Inr 0)"
| "collect_values s [] = (s, Inr 0)"
| "collect_values s (kv # d) =
     (case collect_from s (snd kv) of
        (s', Inl e) \<Rightarrow> (s', Inl e)
      | (s', Inr n) \<Rightarrow> add_count n (collect_values s' d))"
| "collect_items s [] = (s, Inr 0)"
| "collect_items s (it # its) =
     (case it of
        JObj d \<Rightarrow>
          (case fallback_item s d it of
             Inl e \<Rightarrow> (s, Inl e)
           | Inr (s', n) \<Rightarrow> add_count n (collect_items s' its))
      | _ \<Rightarrow>
          (case collect_from s it of
             (s', Inl e) \<Rightarrow> (s', Inl e)
           | (s', Inr n) \<Rightarrow> add_count n (collect_items s' its)))"
  by pat_completeness auto

termination collect_from
  apply (relation "measure (\<lambda>x. case x of
            Inl (s, j) \<Rightarrow> 2 * jsize j
          | Inr (Inl (s, d)) \<Rightarrow> 2 * sum_list (map (\<lambda>kv. jsize (snd kv)) d) + 1
          | Inr (Inr (s, l)) \<Rightarrow> 2 * sum_list (map jsize l) + 1)")
  apply (auto dest!: jsize_map_of simp: less_Suc_eq_le jsize_pos)
  done

definition handle_response :: "(json \<Rightarrow> ustring) \<Rightarrow> session \<Rightarrow> response \<Rightarrow> session \<times> error option" where
  "handle_response render s resp =
     (let url = fst resp; body = snd resp
      in if \<not> capture s then (s, None)
         else if contains (ustr ''complexes/single-markers'') url
                 \<or> contains (ustr ''houses/single-markers'') url
         then (marker_channel render url body s, None)
         else if contains (ustr ''/api/articles/complex/'') url
                 \<or> contains (ustr ''/api/articles/house/'') url
         then (listing_channel url body s, None)
         else if contains (ustr ''/api/complexes/'') url \<and> contains (ustr ''/prices'') url
         then (price_channel body s, None)
         else if contains (ustr ''/api/'') url
         then (case collect_from s (case body of None \<Rightarrow> JNull | Some data \<Rightarrow> data) of
                 (s', Inl e) \<Rightarrow> (s', Some e)
               | (s', Inr added) \<Rightarrow> (s', None))
         else (s, None))"

section \<open>Detail pages\<close>

text \<open>
  More of Python's text operations. \<open>str.splitlines\<close> breaks a text at every line
  boundary (\<open>\r\n\<close> counts once) and gives no empty line after a final boundary.
\<close>

definition is_linebreak :: "nat \<Rightarrow> bool" where
  "is_linebreak c = (c \<in> set [10, 11, 12, 13, 28, 29, 30, 133, 8232, 8233])"

fun split_acc :: "ustring \<Rightarrow> ustring \<Rightarrow> ustring list" where
  "split_acc cur [] = (if cur = [] then [] else [cur])"
| "split_acc cur [c] = (if is_linebreak c then [cur] else [cur @ [c]])"
| "split_acc cur (c # d # cs) =
     (if c = 13 \<and> d = 10 then cur # split_acc [] cs
      else if is_linebreak c then cur # split_acc [] (d # cs)
      else split_acc (cur @ [c]) (d # cs))"

definition py_splitlines :: "ustring \<Rightarrow> ustring list" where
  "py_splitlines s = split_acc [] s"

text \<open>\<open>sep.join(parts)\<close>.\<close>

fun py_join :: "ustring \<Rightarrow> ustring list \<Rightarrow> ustring" where
  "py_join sep [] = []"
| "py_join sep [p] = p"
| "py_join sep (p # q # ps) = p @ sep @ py_join sep (q # ps)"

text \<open>\<open>xs[i:j]\<close> for \<open>0 \<le> i\<close>.\<close>

definition py_slice :: "'a list \<Rightarrow> nat \<Rightarrow> nat \<Rightarrow> 'a list" where
  "py_slice xs i j = take (j - i) (drop i xs)"

text \<open>
  \<open>re.findall\<close> for a pattern with one group that matches no empty text: the group of
  every match, left to right, the search going on after each match. The counter is
  the number of characters still covered by the last match.
\<close>

fun rx_findall_from :: "rx \<Rightarrow> nat \<Rightarrow> ustring \<Rightarrow> ustring list" where
  "rx_findall_from r n [] = []"
| "rx_findall_from r (Suc n) (c # cs) = rx_findall_from r n cs"
| "rx_findall_from r 0 (c # cs) =
     (case rx_match r (c # cs) [] of
        [] \<Rightarrow> rx_findall_from r 0 cs
      | (rest, caps) # _ \<Rightarrow>
          group caps 1 # rx_findall_from r (length cs - length rest) cs)"

definition rx_findall :: "rx \<Rightarrow> ustring \<Rightarrow> ustring list" where
  "rx_findall r s = rx_findall_from r 0 s"

text \<open>The words the detail page is searched for.\<close>

definition w_prev_jeonse :: ustring where "w_prev_jeonse = [44592, 51204, 49464, 44552]"
definition w_not_found :: ustring where
  "w_not_found = [50836, 52397, 54616, 49888, 32, 54168, 51060, 51648, 47484, 32, 52286, 51012,
                  32, 49688, 32, 50630, 50612, 50836]"
definition w_real_price :: ustring where "w_real_price = [49892, 44144, 47000, 44032]"
definition w_jeonse :: ustring where "w_jeonse = [51204, 49464]"
definition w_image :: ustring where "w_image = [51060, 48120, 51648]"
definition w_detail_view :: ustring where "w_detail_view = [49345, 49464, 48372, 44592]"
definition w_broker :: ustring where "w_broker = [51473, 44060, 49324]"
definition w_agency :: ustring where "w_agency = [51473, 44060, 49548]"
definition w_profile :: ustring where "w_profile = [54532, 47196, 54596]"
definition w_licensed_broker :: ustring where "w_licensed_broker = [44277, 51064, 51473, 44060, 49324]"
definition w_real_estate :: ustring where "w_real_estate = [48512, 46041, 49328]"
definition w_phone :: ustring where "w_phone = [51204, 54868]"
definition w_sale :: ustring where "w_sale = [47588, 47588]"

text \<open>The character class \<open>[\d,EOK\s MAN]\<close> of an amount in running text.\<close>

definition is_amount_char :: "nat \<Rightarrow> bool" where
  "is_amount_char c = (is_digit c \<or> c = of_char CHR '','' \<or> c = EOK \<or> is_space c \<or> c = MAN)"

definition is_hangul :: "nat \<Rightarrow> bool" where
  "is_hangul c = (44032 \<le> c \<and> c \<le> 55203)"

definition re_prev_jeonse :: rx where
  "re_prev_jeonse = Seq (lits w_prev_jeonse) (Seq (Rep is_space 0 None) (Grp 1 (Rep is_amount_char 1 None)))"

text \<open>\<open>(\d+)\s*Y\s*N\s*label\s*([amount]+)\<close> with the two syllables "year" and "within".\<close>

definition re_period :: "ustring \<Rightarrow> rx" where
  "re_period label =
     Seq (Grp 1 digits1)
       (Seq (Rep is_space 0 None)
          (Seq (Lit 45380)
             (Seq (Rep is_space 0 None)
                (Seq (Lit 45236)
                   (Seq (Rep is_space 0 None)
                      (Seq (lits label)
                         (Seq (Rep is_space 0 None) (Grp 2 (Rep is_amount_char 1 None)))))))))"

definition re_agency_line :: rx where
  "re_agency_line = Seq (lits w_agency) (Seq (Rep is_space 1 None) (Grp 1 (Rep (\<lambda>c. c \<noteq> 10) 1 None)))"

definition re_phone :: rx where
  "re_phone =
     Grp 1 (Seq (Lit (of_char CHR ''0''))
              (Seq (Rep is_digit 1 (Some 2))
                 (Seq (Lit (of_char CHR ''-''))
                    (Seq (Rep is_digit 3 (Some 4))
                       (Seq (Lit (of_char CHR ''-'')) (Rep is_digit 4 (Some 4)))))))"

text \<open>The configuration constants the detail phase reads, with the values of the source.\<close>

record config =
  only_with_prev_jeonse :: bool
  only_prev_gt_sale :: bool

definition default_config :: config where
  "default_config = \<lparr>only_with_prev_jeonse = True, only_prev_gt_sale = True\<rparr>"

text \<open>
  A browser tab, as far as \<open>scrape_article_detail\<close> uses it. The tab and the site behind
  it are a state of any type \<open>'w\<close>; each operation gives the new state, and the exception
  it raised or its result.
\<close>

record 'w tab =
  goto :: "ustring \<Rightarrow> 'w \<Rightarrow> error option \<times> 'w"
  current_url :: "'w \<Rightarrow> ustring"
  inner_text :: "'w \<Rightarrow> (error + ustring) \<times> 'w"
  click_text :: "ustring \<Rightarrow> 'w \<Rightarrow> error option \<times> 'w"

definition info_url :: "ustring \<Rightarrow> ustring" where
  "info_url article_no = ustr ''https://m.land.naver.com/article/info/'' @ article_no"

definition view_url :: "ustring \<Rightarrow> ustring" where
  "view_url article_no = ustr ''https://m.land.naver.com/article/view/'' @ article_no"

text \<open>
  The inner function \<open>_goto\<close>: neither navigation is inside a \<open>try\<close>, so what \<open>goto\<close>
  raises leaves \<open>scrape_article_detail\<close>.
\<close>

definition goto_with_redirect :: "'w tab \<Rightarrow> ustring \<Rightarrow> ustring \<Rightarrow> 'w \<Rightarrow> error option \<times> 'w" where
  "goto_with_redirect tab article_no url w =
     (case goto tab url w of
        (Some e, w1) \<Rightarrow> (Some e, w1)
      | (None, w1) \<Rightarrow>
          if contains (ustr ''fin.land.naver.com'') (current_url tab w1)
          then goto tab (info_url article_no) w1
          else (None, w1))"

text \<open>\<open>try: body_txt = await detail_page.inner_text("body") except: body_txt = ""\<close>.\<close>

definition body_or_empty :: "'w tab \<Rightarrow> 'w \<Rightarrow> ustring \<times> 'w" where
  "body_or_empty tab w =
     (case inner_text tab w of
        (Inl e, w1) \<Rightarrow> ([], w1)
      | (Inr txt, w1) \<Rightarrow> (txt, w1))"

text \<open>
  The switch to the lease tab: two clicks and a new read of the body, all in one
  \<open>try\<close>; when any of them raises the text read before is kept.
\<close>

definition switch_to_lease_tab :: "'w tab \<Rightarrow> ustring \<Rightarrow> 'w \<Rightarrow> ustring \<times> 'w" where
  "switch_to_lease_tab tab body_txt w =
     (case click_text tab w_real_price w of
        (Some e, w1) \<Rightarrow> (body_txt, w1)
      | (None, w1) \<Rightarrow>
         (case click_text tab w_jeonse w1 of
            (Some e, w2) \<Rightarrow> (body_txt, w2)
          | (None, w2) \<Rightarrow>
             (case inner_text tab w2 of
                (Inl e, w3) \<Rightarrow> (body_txt, w3)
              | (Inr txt, w3) \<Rightarrow> (txt, w3))))"

text \<open>The facts read from the page text.\<close>

record detail =
  office :: ustring
  agent_name :: ustring
  phone1 :: ustring
  phone2 :: ustring
  period_years :: "int option"
  jeonse_max :: "int option"
  jeonse_min :: "int option"
  prev_jeonse :: "int option"

datatype scraped = Skip | Detail detail

text \<open>The non-empty stripped lines of the page.\<close>

definition page_lines :: "ustring \<Rightarrow> ustring list" where
  "page_lines body_txt = filter (\<lambda>l. l \<noteq> []) (map py_strip (py_splitlines body_txt))"

text \<open>
  The broker's name: the first line of two to four Hangul syllables that is not a
  stop word and has a broker keyword in the lines around it; with its index.
\<close>

definition is_agent_line :: "ustring list \<Rightarrow> nat \<Rightarrow> bool" where
  "is_agent_line lines i =
     (let l = lines ! i
      in rx_fullmatch (Rep is_hangul 2 (Some 4)) l
         \<and> l \<notin> set [w_image, w_detail_view, w_broker, w_agency]
         \<and> (let ctx = py_join [10] (py_slice lines (i - 3) (i + 2))
            in contains w_broker ctx \<or> contains w_profile ctx \<or> contains w_agency ctx))"

definition find_agent :: "ustring list \<Rightarrow> nat option" where
  "find_agent lines = find (is_agent_line lines) [0..<length lines]"

text \<open>
  The agency: the first of the five lines after the broker's name that has an agency
  keyword and neither exclusion keyword; failing that, the rest of a line that starts
  with the agency label, unless it mentions an image.
\<close>

definition is_office_line :: "ustring \<Rightarrow> bool" where
  "is_office_line l =
     ((contains w_licensed_broker l \<or> contains w_real_estate l)
      \<and> \<not> contains w_detail_view l \<and> \<not> contains w_phone l)"

definition find_office :: "ustring \<Rightarrow> ustring list \<Rightarrow> nat option \<Rightarrow> ustring" where
  "find_office body_txt lines cand =
     (let near = (case cand of
                    None \<Rightarrow> []
                  | Some i \<Rightarrow>
                      (case find is_office_line (py_slice lines (i + 1) (i + 6)) of
                         None \<Rightarrow> []
                       | Some l \<Rightarrow> l))
      in if near \<noteq> [] then near
         else (case rx_search re_agency_line body_txt of
                 None \<Rightarrow> []
               | Some m \<Rightarrow>
                   (let tmp = py_strip (group m 1)
                    in if \<not> contains w_image tmp then tmp else [])))"

text \<open>\<open>parse_kr_money_to_won(txt) if cond else None\<close>, and the same for \<open>int\<close>.\<close>

definition parse_if :: "bool \<Rightarrow> ustring \<Rightarrow> error + int option" where
  "parse_if cond txt = (if cond then parse_kr_money_to_won txt else Inr None)"

text \<open>
  The part of \<open>scrape_article_detail\<close> after the tab switch: a pure function of the page
  text, which raises where \<open>int\<close> does.
\<close>

definition extract_detail :: "ustring \<Rightarrow> int option \<Rightarrow> error + detail" where
  "extract_detail body_txt prev =
     (let lines = page_lines body_txt;
          cand = find_agent lines;
          agent = (case cand of None \<Rightarrow> [] | Some i \<Rightarrow> lines ! i);
          off = find_office body_txt lines cand;
          m_max = rx_search (re_period [52572, 44256]) body_txt;
          m_min = rx_search (re_period [52572, 51200]) body_txt;
          phones = rx_findall re_phone body_txt
      in case (case m_max of
                 Some m \<Rightarrow> map_sum id Some (py_int (group m 1))
               | None \<Rightarrow> (case m_min of
                            Some m \<Rightarrow> map_sum id Some (py_int (group m 1))
                          | None \<Rightarrow> Inr None)) of
           Inl e \<Rightarrow> Inl e
         | Inr years \<Rightarrow>
            (case (case m_max of Some m \<Rightarrow> parse_kr_money_to_won (group m 2) | None \<Rightarrow> Inr None) of
               Inl e \<Rightarrow> Inl e
             | Inr jmax \<Rightarrow>
                (case (case m_min of Some m \<Rightarrow> parse_kr_money_to_won (group m 2) | None \<Rightarrow> Inr None) of
                   Inl e \<Rightarrow> Inl e
                 | Inr jmin \<Rightarrow>
                     Inr \<lparr>office = off, agent_name = agent,
                          phone1 = (case phones of p # _ \<Rightarrow> p | [] \<Rightarrow> []),
                          phone2 = (case phones of _ # p # _ \<Rightarrow> p | _ \<Rightarrow> []),
                          period_years = years, jeonse_max = jmax, jeonse_min = jmin,
                          prev_jeonse = prev\<rparr>)))"

text \<open>
  The previous-lease amount of the pre-check: the amount after the label, \<open>None\<close> when
  the label or the amount is missing.
\<close>

definition grab_prev_jeonse :: "ustring \<Rightarrow> error + int option" where
  "grab_prev_jeonse body_txt =
     (let txt = (case rx_search re_prev_jeonse body_txt of
                   Some m \<Rightarrow> py_strip (group m 1)
                 | None \<Rightarrow> [])
      in parse_if (txt \<noteq> []) txt)"

text \<open>\<open>not prev_jeonse\<close>: \<open>None\<close> and 0 are both false.\<close>

definition falsy_amount :: "int option \<Rightarrow> bool" where
  "falsy_amount v = (v = None \<or> v = Some 0)"

definition scrape_article_detail ::
  "config \<Rightarrow> 'w tab \<Rightarrow> ustring \<Rightarrow> 'w \<Rightarrow> (error + scraped) \<times> 'w" where
  "scrape_article_detail cfg tab article_no w =
     (case goto_with_redirect tab article_no (info_url article_no) w of
        (Some e, w1) \<Rightarrow> (Inl e, w1)
      | (None, w1) \<Rightarrow>
         (case body_or_empty tab w1 of
            (body1, w2) \<Rightarrow>
              (case (if contains w_not_found body1 \<or> length (py_strip body1) < 50
                     then (case goto_with_redirect tab article_no (view_url article_no) w2 of
                             (Some e, w3) \<Rightarrow> (Inl e, w3)
                           | (None, w3) \<Rightarrow>
                               (case body_or_empty tab w3 of (body2, w4) \<Rightarrow> (Inr body2, w4)))
                     else (Inr body1, w2)) of
                 (Inl e, w5) \<Rightarrow> (Inl e, w5)
               | (Inr body_txt, w5) \<Rightarrow>
                  (case grab_prev_jeonse body_txt of
                     Inl e \<Rightarrow> (Inl e, w5)
                   | Inr prev \<Rightarrow>
                       if only_with_prev_jeonse cfg \<and> falsy_amount prev then (Inr Skip, w5)
                       else
                         (case switch_to_lease_tab tab body_txt w5 of
                            (body3, w6) \<Rightarrow>
                              (case extract_detail body3 prev of
                                 Inl e \<Rightarrow> (Inl e, w6)
                               | Inr d \<Rightarrow> (Inr (Detail d), w6)))))))"

section \<open>Gap analysis of one listing\<close>

text \<open>
  \<open>a / b\<close> on integers, \<open>b\<close> not 0: the double nearest to the quotient, OverflowError when
  the quotient is too large for a double.
\<close>

definition py_truediv :: "int \<Rightarrow> int \<Rightarrow> error + rat" where
  "py_truediv a b =
     (if b = 0 then Inl ZeroDivisionError
      else (case to_double (of_int a / of_int b) of
              None \<Rightarrow> Inl OverflowError
            | Some q \<Rightarrow> Inr q))"

text \<open>
  \<open>re.sub(r'^\s*SALE\s*', '', v).strip()\<close> on the price text of a listing, with the sale
  label of two syllables; \<open>re.sub\<close> raises TypeError on anything but a string.
\<close>

definition re_sale_prefix :: rx where
  "re_sale_prefix = Seq (Rep is_space 0 None) (Seq (lits w_sale) (Rep is_space 0 None))"

fun raw_price_of :: "json \<Rightarrow> error + ustring" where
  "raw_price_of (JStr s) =
     Inr (py_strip (case rx_match re_sale_prefix s [] of [] \<Rightarrow> s | (rest, caps) # _ \<Rightarrow> rest))"
| "raw_price_of _ = Inl TypeError"

text \<open>One row of the result table. The listing id is kept as the value \<open>str\<close> is applied to.\<close>

record row =
  r_name :: json
  r_article_no :: ustring
  r_trade_type :: json
  r_sale :: "int option"
  r_floor :: json
  r_area1 :: json
  r_area2 :: json
  r_direction :: json
  r_feature :: json
  r_confirmed :: json
  r_office :: ustring
  r_agent_name :: ustring
  r_phone1 :: ustring
  r_phone2 :: ustring
  r_period_years :: "int option"
  r_jeonse_max :: "int option"
  r_jeonse_min :: "int option"
  r_prev_jeonse :: "int option"
  r_gap_amount :: "int option"
  r_gap_ratio :: "rat option"

definition make_row ::
  "(json \<Rightarrow> ustring) \<Rightarrow> dict \<Rightarrow> int option \<Rightarrow> detail \<Rightarrow> int option \<Rightarrow> rat option \<Rightarrow> row" where
  "make_row render a deal d gap ratio =
     \<lparr>r_name = dict_get a (ustr ''articleName'') (JStr []),
      r_article_no = py_str render (dict_get a (ustr ''articleNo'') (JStr [])),
      r_trade_type = dict_get a (ustr ''tradeTypeName'') (JStr []),
      r_sale = deal,
      r_floor = dict_get a (ustr ''floorInfo'') (JStr []),
      r_area1 = dict_get a (ustr ''area1'') (JStr []),
      r_area2 = dict_get a (ustr ''area2'') (JStr []),
      r_direction = dict_get a (ustr ''direction'') (JStr []),
      r_feature = dict_get a (ustr ''articleFeatureDesc'') (JStr []),
      r_confirmed = dict_get a (ustr ''articleConfirmYmd'') (JStr []),
      r_office = office d, r_agent_name = agent_name d, r_phone1 = phone1 d, r_phone2 = phone2 d,
      r_period_years = period_years d, r_jeonse_max = jeonse_max d, r_jeonse_min = jeonse_min d,
      r_prev_jeonse = prev_jeonse d, r_gap_amount = gap, r_gap_ratio = ratio\<rparr>"

text \<open>
  \<open>fetch_one\<close> after the tab is back in the pool: the skip, the filter, and the gap.
  The result is \<open>Inr None\<close> for a listing that is left out. The filter leaves a listing
  out when either amount is missing or the previous lease is below the sale price.
\<close>

definition gap_of :: "int option \<Rightarrow> int option \<Rightarrow> int option" where
  "gap_of deal prev = (case (deal, prev) of (Some d, Some p) \<Rightarrow> Some (d - p) | _ \<Rightarrow> None)"

definition filtered_out :: "int option \<Rightarrow> int option \<Rightarrow> bool" where
  "filtered_out deal prev =
     (case (prev, deal) of (Some p, Some d) \<Rightarrow> p < d | _ \<Rightarrow> True)"

text \<open>\<open>(gap_amount / deal) if (gap_amount is not None and deal) else None\<close>.\<close>

definition ratio_of :: "int option \<Rightarrow> int option \<Rightarrow> error + rat option" where
  "ratio_of gap deal =
     (case (gap, deal) of
        (Some g, Some d) \<Rightarrow> if d \<noteq> 0 then map_sum id Some (py_truediv g d) else Inr None
      | _ \<Rightarrow> Inr None)"

definition finish_row ::
  "config \<Rightarrow> (json \<Rightarrow> ustring) \<Rightarrow> dict \<Rightarrow> int option \<Rightarrow> scraped \<Rightarrow> error + row option" where
  "finish_row cfg render a deal extra =
     (case extra of
        Skip \<Rightarrow> Inr None
      | Detail d \<Rightarrow>
          if only_prev_gt_sale cfg \<and> filtered_out deal (prev_jeonse d) then Inr None
          else
            (case ratio_of (gap_of deal (prev_jeonse d)) deal of
               Inl e \<Rightarrow> Inl e
             | Inr ratio \<Rightarrow>
                 Inr (Some (make_row render a deal d (gap_of deal (prev_jeonse d)) ratio))))"

text \<open>
  \<open>fetch_one\<close> on a tab taken from the pool. The tab comes back in every case, also
  with an exception (\<open>try ... finally\<close>); there is no \<open>except\<close>, so the exception goes on
  to the caller. The price is parsed before the tab is taken.
\<close>

definition fetch_one ::
  "config \<Rightarrow> (json \<Rightarrow> ustring) \<Rightarrow> 'w tab \<Rightarrow> json \<Rightarrow> 'w \<Rightarrow> (error + row option) \<times> 'w" where
  "fetch_one cfg render tab a w =
     (case as_dict a of
        Inl e \<Rightarrow> (Inl e, w)
      | Inr d \<Rightarrow>
         (case raw_price_of (py_or (dict_get d (ustr ''dealOrWarrantPrc'') (JStr [])) (JStr [])) of
            Inl e \<Rightarrow> (Inl e, w)
          | Inr raw_price \<Rightarrow>
             (case parse_kr_money_to_won raw_price of
                Inl e \<Rightarrow> (Inl e, w)
              | Inr deal \<Rightarrow>
                 (case scrape_article_detail cfg tab
                         (py_str render (dict_get d (ustr ''articleNo'') (JStr []))) w of
                    (Inl e, w1) \<Rightarrow> (Inl e, w1)
                  | (Inr extra, w1) \<Rightarrow> (finish_row cfg render d deal extra, w1)))))"

text \<open>
  The loop of \<open>crawl_detailed\<close> that awaits the tasks: an exception of a task is raised
  again by \<open>await\<close> and ends the loop and the run; the rows that are not \<open>None\<close> are kept.
  The outcomes are taken in the order the tasks complete.
\<close>

fun collect_rows :: "(error + row option) list \<Rightarrow> error + row list" where
  "collect_rows [] = Inr []"
| "collect_rows (Inl e # outs) = Inl e"
| "collect_rows (Inr None # outs) = collect_rows outs"
| "collect_rows (Inr (Some r) # outs) =
     (case collect_rows outs of Inl e \<Rightarrow> Inl e | Inr rs \<Rightarrow> Inr (r # rs))"

section \<open>Predicates of the specification\<close>

text \<open>The buffers as they are when a session starts, before capture is switched on.\<close>

definition fresh_session :: session where
  "fresh_session = \<lparr>capture = False, complex_list = [], seen_complex = {}, article_list = [],
     seen_article = {}, trade_history = [], seen_trade = {}, complex_meta = Map.empty\<rparr>"

text \<open>No count of the metadata store \<open>M\<close> is lower in \<open>M'\<close>, and no entry is lost.\<close>

definition counts_le :: "(ustring \<rightharpoonup> meta) \<Rightarrow> (ustring \<rightharpoonup> meta) \<Rightarrow> bool" where
  "counts_le M M' = (\<forall>c m. M c = Some m \<longrightarrow> (\<exists>m'. M' c = Some m' \<and> meta_count m \<le> meta_count m'))"

text \<open>The recorded count of a marker id; an id with no entry yet counts 0.\<close>

definition count_of :: "session \<Rightarrow> ustring \<Rightarrow> int" where
  "count_of s c = (case complex_meta s c of None \<Rightarrow> 0 | Some m \<Rightarrow> meta_count m)"


text \<open>
  What one marker of a payload reports: \<open>Inl\<close> when handling it raises, \<open>Inr (Some (c, k))\<close>
  when it passes the asset-type test and carries the id \<open>c\<close> and the integer count \<open>k\<close>,
  \<open>Inr None\<close> when it is skipped or carries no integer count.
\<close>

definition marker_report :: "(json \<Rightarrow> ustring) \<Rightarrow> ustring \<Rightarrow> json \<Rightarrow> error + (ustring \<times> int) option" where
  "marker_report render url it =
     (case as_dict it of
        Inl e \<Rightarrow> Inl e
      | Inr d \<Rightarrow>
         (case marker_wanted url d of
            Inl e \<Rightarrow> Inl e
          | Inr False \<Rightarrow> Inr None
          | Inr True \<Rightarrow>
              if marker_cno render d = [] then Inr None
              else (case int_value (marker_cnt d) of
                      Some k \<Rightarrow> Inr (Some (marker_cno render d, k))
                    | None \<Rightarrow> Inr None)))"

text \<open>
  The integer counts the markers of a payload report for the id \<open>c\<close>, in order, up to
  the first marker that raises (the handler stops there).
\<close>

fun reported_counts :: "(json \<Rightarrow> ustring) \<Rightarrow> ustring \<Rightarrow> json list \<Rightarrow> ustring \<Rightarrow> int list" where
  "reported_counts render url [] c = []"
| "reported_counts render url (it # its) c =
     (case marker_report render url it of
        Inl e \<Rightarrow> []
      | Inr None \<Rightarrow> reported_counts render url its c
      | Inr (Some (c', k)) \<Rightarrow>
          (if c' = c then [k] else []) @ reported_counts render url its c)"


text \<open>
  A step of channel 4 drops duplicates: it never removes a seen listing id, whether it
  raises does not depend on the session, and run again on a session that has seen
  all it has seen, it changes nothing.
\<close>

definition absorbing :: "(session \<Rightarrow> 'a \<Rightarrow> session \<times> (error + nat)) \<Rightarrow> 'a \<Rightarrow> bool" where
  "absorbing f x =
     (\<forall>s. seen_article s \<subseteq> seen_article (fst (f s x))
        \<and> (\<forall>t. isl (snd (f t x)) = isl (snd (f s x)))
        \<and> (\<forall>t. seen_article (fst (f s x)) \<subseteq> seen_article t \<longrightarrow> fst (f t x) = t))"

section \<open>Example inputs\<close>

text \<open>A session in which capture is on and the marker 101 is recorded with count 3.\<close>

definition ex_session :: session where
  "ex_session = fresh_session\<lparr>capture := True,
     complex_meta := [ustr ''101'' \<mapsto> \<lparr>meta_name = JStr [], meta_count = 3\<rparr>]\<rparr>"

definition ex_marker_url :: ustring where
  "ex_marker_url = ustr ''https://new.land.naver.com/api/complexes/single-markers/2.0''"

text \<open>A marker payload that reports the counts 5 and 4 for the marker 101.\<close>

definition ex_markers :: "json list" where
  "ex_markers =
     [JObj [(ustr ''markerId'', JStr (ustr ''101'')), (ustr ''articleCount'', JInt 5)],
      JObj [(ustr ''markerId'', JStr (ustr ''101'')), (ustr ''articleCount'', JInt 4)]]"

definition ex_listing_url :: ustring where
  "ex_listing_url = ustr ''https://new.land.naver.com/api/articles/complex/101''"

text \<open>A listing payload with the total 7 and no listings.\<close>

definition ex_listing :: dict where
  "ex_listing = [(ustr ''totalCount'', JInt 7)]"



section \<open>Properties of the floating-point model\<close>

lemma pow2_powi: "pow2 e = 2 powi e"
  by (simp add: pow2_def power_int_def field_simps)

lemma pow2_pos: "0 < pow2 e"
  by (simp add: pow2_powi)

lemma pow2_add: "pow2 (a + b) = pow2 a * pow2 b"
  by (simp add: pow2_powi power_int_add)

lemma pow2_mono: "a \<le> b \<Longrightarrow> pow2 a \<le> pow2 b"
  by (simp add: pow2_powi power_int_increasing)

lemma pow2_less_cancel: "pow2 a < pow2 b \<Longrightarrow> a < b"
  using pow2_mono [of b a] by (cases "b \<le> a") auto

lemma pow2_nat: "0 \<le> e \<Longrightarrow> pow2 e = 2 ^ nat e"
  by (simp add: pow2_def)

lemma flog2_le: assumes "0 < a" shows "pow2 (flog2 a) \<le> a"
proof (cases "1 \<le> a")
  case True
  define n where "n = \<lfloor>a\<rfloor>"
  have n1: "1 \<le> n" using True by (simp add: n_def le_floor_iff)
  then have b1: "1 \<le> bitlen n" by (simp add: bitlen_alt_def)
  have "(2::int) ^ nat (bitlen n - 1) \<le> n" using bitlen_bounds [of n] n1 by simp
  then have "(of_int ((2::int) ^ nat (bitlen n - 1)) :: rat) \<le> of_int n" by (simp only: of_int_le_iff)
  also have "\<dots> \<le> a" by (simp add: n_def)
  finally show ?thesis using True b1 by (simp add: flog2_def n_def [symmetric] pow2_nat)
next
  case False
  define n where "n = \<lceil>1 / a\<rceil>"
  have "1 < 1 / a" using False assms by (simp add: field_simps)
  then have n2: "2 \<le> n" unfolding n_def by (simp add: le_ceiling_iff)
  have lt: "n - 1 < 2 ^ nat (bitlen (n - 1))" using bitlen_bounds [of "n - 1"] n2 by simp
  then have "n \<le> 2 ^ nat (bitlen (n - 1))" by simp
  then have "(of_int n :: rat) \<le> of_int (2 ^ nat (bitlen (n - 1)))" by (simp only: of_int_le_iff)
  then have A: "(of_int n :: rat) \<le> 2 ^ nat (bitlen (n - 1))" by simp
  have B: "1 / a \<le> of_int n" by (simp add: n_def)
  have "1 / a \<le> 2 ^ nat (bitlen (n - 1))" using B A by (rule order_trans)
  then have "1 / 2 ^ nat (bitlen (n - 1)) \<le> a" using assms by (simp add: field_simps)
  moreover have "pow2 (- bitlen (n - 1)) = 1 / 2 ^ nat (bitlen (n - 1))"
    using bitlen_nonneg [of "n - 1"] by (simp add: pow2_def bitlen_eq_zero_iff)
  ultimately show ?thesis using False by (simp add: flog2_def n_def [symmetric])
qed

lemma round_half_even_of_int: "round_half_even (of_int z) = z"
  by (simp add: round_half_even_def)

lemma pow2_53: "pow2 53 = 2 ^ 53"
  by (simp add: pow2_def)

lemma to_double_exact:
  assumes m: "m \<noteq> 0" "\<bar>m\<bar> < 2 ^ 53" and k: "- 1074 \<le> k" "k \<le> 971"
  shows "to_double (of_int m * pow2 k) = Some (of_int m * pow2 k)"
proof -
  define q where "q = (of_int m :: rat) * pow2 k"
  define a where "a = \<bar>q\<bar>"
  have a_eq: "a = of_int \<bar>m\<bar> * pow2 k"
    using pow2_pos [of k] by (simp add: a_def q_def abs_mult)
  have a_pos: "0 < a" using m(1) pow2_pos [of k] by (simp add: a_eq)
  have "(of_int \<bar>m\<bar> :: rat) < of_int (2 ^ 53)" using m(2) by (simp only: of_int_less_iff)
  then have "a < 2 ^ 53 * pow2 k" using pow2_pos [of k] by (simp add: a_eq)
  also have "\<dots> = pow2 (53 + k)" by (simp only: pow2_add pow2_53)
  finally have a_lt: "a < pow2 (53 + k)" .
  define e where "e = flog2 a"
  have "pow2 e < pow2 (53 + k)" using flog2_le [OF a_pos] a_lt by (simp add: e_def)
  then have e_lt: "e < 53 + k" by (rule pow2_less_cancel)
  define d where "d = k - (max e (- 1022) - 52)"
  have d0: "0 \<le> d" using e_lt k(1) by (simp add: d_def)
  define u where "u = pow2 (max e (- 1022) - 52)"
  have k_eq: "pow2 k = pow2 d * u" by (simp add: u_def d_def pow2_add [symmetric])
  have u_pos: "0 < u" by (simp add: u_def pow2_pos)
  have "a / u = of_int \<bar>m\<bar> * pow2 d" using u_pos by (simp add: a_eq k_eq)
  also have "\<dots> = of_int (\<bar>m\<bar> * 2 ^ nat d)" using d0 by (simp add: pow2_nat)
  finally have au: "a / u = of_int (\<bar>m\<bar> * 2 ^ nat d)" .
  have "of_int (round_half_even (a / u)) * u = a / u * u"
    by (simp only: au round_half_even_of_int)
  also have "\<dots> = a" using u_pos by simp
  finally have r: "of_int (round_half_even (a / u)) * u = a" .
  have "pow2 (53 + k) \<le> pow2 1024" using k(2) by (intro pow2_mono) simp
  then have no_ovf: "\<not> pow2 1024 \<le> a" using a_lt by simp
  have q0: "q \<noteq> 0" using a_pos by (simp add: a_def)
  have "to_double q = Some (sgn q * a)"
    using q0 no_ovf r by (simp add: to_double_def Let_def a_def [symmetric] e_def [symmetric] u_def [symmetric])
  also have "sgn q * a = q" by (simp add: a_def sgn_mult_abs)
  finally show ?thesis by (simp add: q_def)
qed

lemma to_double_int: "\<bar>n\<bar> < 2 ^ 53 \<Longrightarrow> to_double (of_int n) = Some (of_int n)"
proof (cases "n = 0")
  case True then show ?thesis by (simp add: to_double_def)
next
  case False
  assume "\<bar>n\<bar> < 2 ^ 53"
  with False to_double_exact [of n 0] show ?thesis by (simp add: pow2_def)
qed

lemma to_double_15_2: "to_double (15 / 2) = Some (15 / 2)"
  using to_double_exact [of 15 "- 1"] by (simp add: pow2_def)

lemma to_double_numeral:
  "numeral w < (2::int) ^ 53 \<Longrightarrow> to_double (numeral w) = Some (numeral w)"
  using to_double_int [of "numeral w"] by simp

section \<open>The currency parser on the documented inputs\<close>

lemmas parse_eval = parse_kr_money_to_won_def eok_and_man_def man_after_eok_def
  man_without_eok_def int_of_float_times_def py_float_def decimal_value_def py_int_def
  py_int_times_def max_str_digits_def digits_value_def digit_val_def
  re_eok_def re_eok_man_def re_eok_end_def re_eok_cheon_def re_man_def re_cheon_def
  rx_fullmatch_def group_def py_strip_def remove_char_def ustr_def is_space_def
  is_digit_def nd_starts_def EOK_def MAN_def CHEON_def WON_def Let_def

lemma parse_eok_man_won:
  "parse_kr_money_to_won (ustr ''3'' @ [EOK] @ ustr '' 8,000'' @ [MAN, WON]) = Inr (Some 380000000)"
  by (simp add: parse_eval to_double_numeral)

lemma parse_bare_number: "parse_kr_money_to_won (ustr ''8,500'') = Inr (Some 85000000)"
  by (simp add: parse_eval)

lemma parse_decimal_eok: "parse_kr_money_to_won (ustr ''7.5'' @ [EOK]) = Inr (Some 750000000)"
  by (simp add: parse_eval to_double_15_2 to_double_numeral)

lemma parse_number_won: "parse_kr_money_to_won (ustr ''320000000'' @ [WON]) = Inr (Some 320000000)"
  by (simp add: parse_eval)

lemma parse_eok_cheon:
  "parse_kr_money_to_won (ustr ''3'' @ [EOK] @ ustr ''2'' @ [CHEON]) = Inr (Some 320000000)"
  by (simp add: parse_eval to_double_numeral)

lemma parse_empty: "parse_kr_money_to_won [] = Inr None"
  by (simp add: parse_kr_money_to_won_def)

text \<open>
  Claim C1. \<open>parse_kr_money_to_won\<close> maps the documented literal inputs as stated:
  "3\<open>EOK\<close> 8,000\<open>MAN\<close>\<open>WON\<close>" to 380,000,000; "8,500" to 85,000,000; "7.5\<open>EOK\<close>" to
  750,000,000; "320000000\<open>WON\<close>" to 320,000,000; "3\<open>EOK\<close>2\<open>CHEON\<close>" to 320,000,000; and
  the empty string to no value (\<open>Inr None\<close>). None of them raises.
\<close>

theorem parse_kr_money_literal_cases:
  "parse_kr_money_to_won (ustr ''3'' @ [EOK] @ ustr '' 8,000'' @ [MAN, WON]) = Inr (Some 380000000)
   \<and> parse_kr_money_to_won (ustr ''8,500'') = Inr (Some 85000000)
   \<and> parse_kr_money_to_won (ustr ''7.5'' @ [EOK]) = Inr (Some 750000000)
   \<and> parse_kr_money_to_won (ustr ''320000000'' @ [WON]) = Inr (Some 320000000)
   \<and> parse_kr_money_to_won (ustr ''3'' @ [EOK] @ ustr ''2'' @ [CHEON]) = Inr (Some 320000000)
   \<and> parse_kr_money_to_won [] = Inr None"
  using parse_eok_man_won parse_bare_number parse_decimal_eok parse_number_won
    parse_eok_cheon parse_empty
  by (intro conjI)

text \<open>
  Claim C3. A text with no eok, man or thousand quantity that is not a bare integer
  should parse to no value. The text "abc" is such a text: none of the patterns
  matches it and it is not a run of digits. The parser falls through to its last
  line and returns the number 0.
\<close>

theorem parse_kr_money_unparsable_gives_zero:
  "rx_search re_eok (ustr ''abc'') = None
   \<and> rx_search re_man (ustr ''abc'') = None
   \<and> rx_search re_cheon (ustr ''abc'') = None
   \<and> \<not> rx_fullmatch digits1 (ustr ''abc'')
   \<and> parse_kr_money_to_won (ustr ''abc'') = Inr (Some 0)"
  by (simp add: parse_eval)

section \<open>Response ingestion: counts only grow\<close>

lemma counts_le_refl: "counts_le M M"
  by (simp add: counts_le_def)

lemma counts_le_trans: "counts_le A B \<Longrightarrow> counts_le B C \<Longrightarrow> counts_le A C"
  unfolding counts_le_def by (meson order_trans)

lemma counts_le_setdefault: "counts_le (complex_meta s) (complex_meta (meta_setdefault c n s))"
  by (auto simp: counts_le_def meta_setdefault_def split: option.splits)

lemma counts_le_update:
  "M c = Some m \<Longrightarrow> meta_count m \<le> meta_count m' \<Longrightarrow> counts_le M (M(c \<mapsto> m'))"
  by (auto simp: counts_le_def)

lemma meta_setdefault_Some: "\<exists>m. complex_meta (meta_setdefault c n s) c = Some m"
  by (auto simp: meta_setdefault_def split: option.splits)

lemma meta_setdefault_fields [simp]:
  "complex_list (meta_setdefault c n s) = complex_list s"
  "seen_complex (meta_setdefault c n s) = seen_complex s"
  "article_list (meta_setdefault c n s) = article_list s"
  "seen_article (meta_setdefault c n s) = seen_article s"
  "trade_history (meta_setdefault c n s) = trade_history s"
  "seen_trade (meta_setdefault c n s) = seen_trade s"
  "capture (meta_setdefault c n s) = capture s"
  by (auto simp: meta_setdefault_def split: option.splits)

lemma meta_setdefault_other: "c' \<noteq> c \<Longrightarrow> complex_meta (meta_setdefault c n s) c' = complex_meta s c'"
  by (auto simp: meta_setdefault_def split: option.splits)

lemma meta_setdefault_count: "count_of (meta_setdefault c n s) c' = count_of s c'"
  by (auto simp: meta_setdefault_def count_of_def split: option.splits)

lemma meta_update_fields [simp]:
  "complex_list (meta_update c n v s) = complex_list s"
  "seen_complex (meta_update c n v s) = seen_complex s"
  "article_list (meta_update c n v s) = article_list s"
  "seen_article (meta_update c n v s) = seen_article s"
  "trade_history (meta_update c n v s) = trade_history s"
  "seen_trade (meta_update c n v s) = seen_trade s"
  "capture (meta_update c n v s) = capture s"
  by (simp_all add: meta_update_def Let_def)

lemma meta_update_other: "c' \<noteq> c \<Longrightarrow> complex_meta (meta_update c n v s) c' = complex_meta s c'"
  by (simp add: meta_update_def Let_def meta_setdefault_other)

lemma meta_update_dom: "c \<in> dom (complex_meta (meta_update c n v s))"
  by (simp add: meta_update_def Let_def)

lemma meta_update_count:
  "count_of (meta_update c n v s) c =
     (case int_value v of Some k \<Rightarrow> max (count_of s c) k | None \<Rightarrow> count_of s c)"
proof -
  obtain m where m: "complex_meta (meta_setdefault c n s) c = Some m"
    using meta_setdefault_Some by blast
  have "meta_count m = count_of s c"
    using m meta_setdefault_count [of c n s c] by (simp add: count_of_def)
  then show ?thesis
    using m by (auto simp: meta_update_def Let_def count_of_def split: option.splits)
qed

lemma meta_update_counts: "counts_le (complex_meta s) (complex_meta (meta_update c n v s))"
  unfolding counts_le_def
proof (intro allI impI)
  fix c' m assume a: "complex_meta s c' = Some m"
  show "\<exists>m'. complex_meta (meta_update c n v s) c' = Some m' \<and> meta_count m \<le> meta_count m'"
  proof (cases "c' = c")
    case False
    then show ?thesis using a by (simp add: meta_update_other)
  next
    case True
    obtain m' where m': "complex_meta (meta_update c n v s) c = Some m'"
      using meta_update_dom [of c n v s] by auto
    have "meta_count m' = count_of (meta_update c n v s) c" using m' by (simp add: count_of_def)
    moreover have "meta_count m = count_of s c" using a True by (simp add: count_of_def)
    ultimately have "meta_count m \<le> meta_count m'"
      by (simp add: meta_update_count split: option.splits)
    then show ?thesis using m' True by simp
  qed
qed

lemma marker_item_counts:
  assumes "marker_item render url s it = Inr s'"
  shows "counts_le (complex_meta s) (complex_meta s')"
proof -
  have "counts_le (complex_meta s) (complex_meta (meta_update c n v s1))"
    if "complex_meta s1 = complex_meta s" for c n v s1
    using meta_update_counts [of s1 c n v] that by simp
  then show ?thesis
    using assms
    by (auto simp: marker_item_def Let_def counts_le_refl split: sum.splits bool.splits if_splits)
qed

lemma run_items_counts:
  assumes "\<And>s x s'. f s x = Inr s' \<Longrightarrow> counts_le (complex_meta s) (complex_meta s')"
  shows "counts_le (complex_meta s) (complex_meta (fst (run_items f s xs)))"
proof (induction xs arbitrary: s)
  case Nil
  show ?case by (simp add: counts_le_refl)
next
  case (Cons x xs)
  show ?case
  proof (cases "f s x")
    case (Inl e)
    then show ?thesis by (simp add: counts_le_refl)
  next
    case (Inr s')
    then show ?thesis
      using counts_le_trans [OF assms [OF Inr] Cons.IH [of s']] by simp
  qed
qed

lemma run_items_meta:
  assumes "\<And>s x s'. f s x = Inr s' \<Longrightarrow> complex_meta s' = complex_meta s"
  shows "complex_meta (fst (run_items f s xs)) = complex_meta s"
proof (induction xs arbitrary: s)
  case Nil
  show ?case by simp
next
  case (Cons x xs)
  show ?case using assms Cons.IH by (cases "f s x") auto
qed

lemma add_article_meta: "add_article k a s = Inr (s', n) \<Longrightarrow> complex_meta s' = complex_meta s"
  by (auto simp: add_article_def split: sum.splits if_splits)

lemma article_item_meta: "article_item url s a = Inr s' \<Longrightarrow> complex_meta s' = complex_meta s"
  by (auto simp: article_item_def Let_def dest: add_article_meta split: sum.splits bool.splits if_splits)

lemma trade_item_meta: "trade_item s t = Inr s' \<Longrightarrow> complex_meta s' = complex_meta s"
  by (auto simp: trade_item_def split: sum.splits if_splits)

lemma fallback_item_meta: "fallback_item s d it = Inr (s', n) \<Longrightarrow> complex_meta s' = complex_meta s"
  by (auto simp: fallback_item_def Let_def dest: add_article_meta split: sum.splits if_splits)

lemma int_of_number_gt:
  assumes "gt_int v c = Some True" "int_of_number v = Inr n"
  shows "c \<le> n"
proof (cases v)
  case (JFloat f)
  show ?thesis
  proof (cases f)
    case (Fin r)
    have "c \<le> \<lfloor>r\<rfloor>" using assms JFloat Fin by (simp add: le_floor_iff)
    moreover have "\<lfloor>r\<rfloor> \<le> \<lceil>r\<rceil>" by (rule floor_le_ceiling)
    ultimately have "c \<le> \<lfloor>r\<rfloor> \<and> c \<le> \<lceil>r\<rceil>" by linarith
    then show ?thesis using assms JFloat Fin by (auto simp: py_trunc_def)
  qed (use assms JFloat in auto)
qed (use assms in \<open>auto split: if_splits\<close>)

text \<open>What \<open>update_total\<close> does to the count of the id in the URL.\<close>

lemma update_total_count:
  "count_of (fst (update_total (Some c) v s)) c =
     (if truthy v \<and> gt_int v (count_of s c) = Some True
      then (case int_of_number v of Inr n \<Rightarrow> n | Inl e \<Rightarrow> count_of s c)
      else count_of s c)"
proof -
  obtain m where m: "complex_meta (meta_setdefault c (JStr []) s) c = Some m"
    using meta_setdefault_Some by blast
  have mc: "meta_count m = count_of s c"
    using m meta_setdefault_count [of c "JStr []" s c] by (simp add: count_of_def)
  show ?thesis
    using m mc
    by (auto simp: update_total_def Let_def count_of_def
          split: option.splits bool.splits sum.splits)
qed

lemma update_total_other:
  "c' \<noteq> c \<Longrightarrow> complex_meta (fst (update_total (Some c) v s)) c' = complex_meta s c'"
  by (auto simp: update_total_def Let_def meta_setdefault_other
        split: option.splits bool.splits sum.splits)

lemma update_total_None: "update_total None v s = (s, None)"
  by (simp add: update_total_def)

lemma update_total_counts: "counts_le (complex_meta s) (complex_meta (fst (update_total cno v s)))"
proof (cases cno)
  case None
  then show ?thesis by (simp add: update_total_def counts_le_refl)
next
  case (Some c)
  obtain m where m: "complex_meta (meta_setdefault c (JStr []) s) c = Some m"
    using meta_setdefault_Some by blast
  have a: "counts_le (complex_meta s) (complex_meta (meta_setdefault c (JStr []) s))"
    by (rule counts_le_setdefault)
  have le: "meta_count m \<le> n" if "gt_int v (meta_count m) = Some True" "int_of_number v = Inr n" for n
    using int_of_number_gt that by blast
  show ?thesis
    using Some m le
    by (auto simp: update_total_def Let_def counts_le_refl a
          split: option.splits bool.splits sum.splits
          intro!: counts_le_trans [OF a] counts_le_update)
qed

lemma add_count_fst: "fst (add_count n p) = fst p"
  by (cases p; cases "snd p") auto

lemma collect_meta:
  "complex_meta (fst (collect_from s j)) = complex_meta s"
  "complex_meta (fst (collect_values s d)) = complex_meta s"
  "complex_meta (fst (collect_items s l)) = complex_meta s"
proof (induction s j and s d and s l rule: collect_from_collect_values_collect_items.induct)
  case (1 s d)
  then show ?case by (auto split: option.splits json.splits)
next
  case (9 s kv d)
  then show ?case
    by (auto simp: add_count_fst split: prod.splits sum.splits)
next
  case (11 s it its)
  then show ?case
    by (auto simp: add_count_fst dest: fallback_item_meta split: prod.splits sum.splits json.splits)
qed simp_all

lemma marker_channel_counts:
  "counts_le (complex_meta s) (complex_meta (marker_channel render url body s))"
proof -
  have a: "counts_le (complex_meta s) (complex_meta (fst (run_items (marker_item render url) s xs)))"
    for xs by (rule run_items_counts) (rule marker_item_counts)
  show ?thesis
    by (auto simp: marker_channel_def counts_le_refl a split: option.splits json.splits)
qed

text \<open>The listing channel writes the metadata store only through \<open>update_total\<close>.\<close>

lemma listing_channel_meta:
  "complex_meta (listing_channel url (Some (JObj d)) s)
     = complex_meta (fst (update_total (url_cno url) (listing_total d) s))"
proof -
  have b: "complex_meta (fst (run_items (article_item url) t xs)) = complex_meta t" for t xs
    by (rule run_items_meta) (rule article_item_meta)
  show ?thesis
    by (auto simp: listing_channel_def b split: prod.splits option.splits json.splits)
qed

lemma listing_channel_counts:
  "counts_le (complex_meta s) (complex_meta (listing_channel url body s))"
proof (cases body)
  case None
  then show ?thesis by (simp add: listing_channel_def counts_le_refl)
next
  case (Some data)
  show ?thesis
  proof (cases data)
    case (JObj d)
    show ?thesis unfolding Some JObj listing_channel_meta by (rule update_total_counts)
  qed (use Some in \<open>simp_all add: listing_channel_def counts_le_refl\<close>)
qed

lemma price_channel_meta: "complex_meta (price_channel body s) = complex_meta s"
proof -
  have a: "complex_meta (fst (run_items trade_item s xs)) = complex_meta s" for xs
    by (rule run_items_meta) (rule trade_item_meta)
  show ?thesis
    by (auto simp: price_channel_def a split: option.splits json.splits)
qed

lemma handle_response_counts:
  "counts_le (complex_meta s) (complex_meta (fst (handle_response render s resp)))"
proof -
  have c: "complex_meta (fst (collect_from s j)) = complex_meta s" for j
    by (rule collect_meta)
  show ?thesis
    using c
    by (auto simp: handle_response_def Let_def counts_le_refl marker_channel_counts
          listing_channel_counts price_channel_meta split: prod.splits sum.splits)
      (metis fst_conv counts_le_refl)+
qed

lemma count_of_cong: "complex_meta s' = complex_meta s \<Longrightarrow> count_of s' c = count_of s c"
  by (simp add: count_of_def)

lemma count_of_other:
  "complex_meta s' c = complex_meta s c \<Longrightarrow> count_of s' c = count_of s c"
  by (simp add: count_of_def)

lemma marker_item_report_err:
  "marker_item render url s it = Inl e \<Longrightarrow> marker_report render url it = Inl e"
  by (auto simp: marker_item_def marker_report_def Let_def split: sum.splits bool.splits if_splits)

lemma marker_item_report:
  assumes "marker_item render url s it = Inr s'"
  shows "\<exists>r. marker_report render url it = Inr r
           \<and> count_of s' c = (case r of
                               Some (c', k) \<Rightarrow> if c' = c then max (count_of s c) k else count_of s c
                             | None \<Rightarrow> count_of s c)"
proof -
  have upd: "count_of (meta_update cno n v s1) c =
               (if cno = c then (case int_value v of Some k \<Rightarrow> max (count_of s c) k | None \<Rightarrow> count_of s c)
                else count_of s c)"
    if "complex_meta s1 = complex_meta s" for cno n v s1
  proof (cases "cno = c")
    case True
    then show ?thesis
      using meta_update_count [of c n v s1] count_of_cong [OF that, of c]
      by (simp split: option.splits)
  next
    case False
    then have "complex_meta (meta_update cno n v s1) c = complex_meta s c"
      using meta_update_other [of c cno n v s1] that by simp
    then show ?thesis
      using False count_of_other [of "meta_update cno n v s1" c s] by simp
  qed
  show ?thesis
  proof (cases "as_dict it")
    case (Inl e)
    then show ?thesis using assms by (simp add: marker_item_def)
  next
    case d: (Inr d)
    show ?thesis
    proof (cases "marker_wanted url d")
      case (Inl e)
      then show ?thesis using assms d by (simp add: marker_item_def)
    next
      case w: (Inr b)
      show ?thesis
      proof (cases "b \<and> marker_cno render d \<noteq> []")
        case False
        then have "s' = s"
          using assms d w by (auto simp: marker_item_def Let_def split: if_splits bool.splits)
        moreover have "marker_report render url it = Inr None"
          using False d w by (auto simp: marker_report_def split: bool.splits)
        ultimately show ?thesis by simp
      next
        case True
        define s1 where "s1 = (if marker_cno render d \<in> seen_complex s then s
                               else s\<lparr>complex_list := complex_list s @ [it],
                                      seen_complex := insert (marker_cno render d) (seen_complex s)\<rparr>)"
        have m1: "complex_meta s1 = complex_meta s" by (simp add: s1_def)
        have s': "s' = meta_update (marker_cno render d) (marker_name d) (marker_cnt d) s1"
          using assms d w True by (simp add: marker_item_def Let_def s1_def)
        have rep: "marker_report render url it =
                     Inr (case int_value (marker_cnt d) of
                            Some k \<Rightarrow> Some (marker_cno render d, k) | None \<Rightarrow> None)"
          using d w True by (simp add: marker_report_def split: option.splits)
        show ?thesis
          unfolding s' rep upd [OF m1]
          by (cases "int_value (marker_cnt d)") auto
      qed
    qed
  qed
qed

lemma run_marker_items_count:
  "count_of (fst (run_items (marker_item render url) s items)) c
     = foldl max (count_of s c) (reported_counts render url items c)"
proof (induction items arbitrary: s)
  case Nil
  show ?case by simp
next
  case (Cons it its)
  show ?case
  proof (cases "marker_item render url s it")
    case (Inl e)
    then show ?thesis using marker_item_report_err [OF Inl] by simp
  next
    case (Inr s')
    obtain r where r: "marker_report render url it = Inr r"
      and c: "count_of s' c = (case r of
                               Some (c', k) \<Rightarrow> if c' = c then max (count_of s c) k else count_of s c
                             | None \<Rightarrow> count_of s c)"
      using marker_item_report [OF Inr, of c] by blast
    show ?thesis
      using Inr r c Cons.IH [of s'] by (auto split: option.splits)
  qed
qed

lemma foldl_max_ge: "(a::int) \<le> foldl max a xs"
proof (induction xs arbitrary: a)
  case Nil
  show ?case by simp
next
  case (Cons x xs)
  have "a \<le> max a x" by simp
  also have "\<dots> \<le> foldl max (max a x) xs" by (rule Cons.IH)
  finally show ?case by simp
qed

lemma listing_channel_count:
  "count_of (listing_channel url (Some (JObj d)) s) c
     = count_of (fst (update_total (url_cno url) (listing_total d) s)) c"
  by (rule count_of_cong) (rule listing_channel_meta)

lemmas ex_eval = ex_session_def ex_marker_url_def ex_markers_def ex_listing_url_def
  ex_listing_def fresh_session_def ustr_def

lemma ex_listing_url_cno: "url_cno ex_listing_url = Some (ustr ''101'')"
  by (simp add: ex_eval url_cno_def re_article_url_def group_def is_digit_def nd_starts_def)

lemma ex_reported_counts:
  "reported_counts (\<lambda>v. []) ex_marker_url ex_markers (ustr ''101'') = [5, 4]"
  by (simp add: ex_eval marker_report_def marker_wanted_def marker_cno_def marker_cnt_def
        py_or_def dict_get_def)

text \<open>
  Claim C7. The recorded count of a marker id never goes down, whatever response is
  handled: an entry of the metadata store stays, with a count at least what it was.
  The marker channel sets the count of an id to the maximum of what it was and of the
  integer counts the payload's markers report for that id (up to the first marker
  that raises). The listing channel changes the count of the id in its URL only when
  the payload's total is larger than the recorded count, then to the total as an
  integer, and leaves every other id alone.
\<close>

theorem reported_count_never_decreases:
  "(complex_meta s c = Some m \<longrightarrow>
      (\<exists>m'. complex_meta (fst (handle_response render s resp)) c = Some m'
            \<and> meta_count m \<le> meta_count m'))
   \<and> (capture s \<and> (contains (ustr ''complexes/single-markers'') url
                    \<or> contains (ustr ''houses/single-markers'') url) \<longrightarrow>
        count_of (fst (handle_response render s (url, Some (JList items)))) c
          = foldl max (count_of s c) (reported_counts render url items c))
   \<and> (capture s \<and> \<not> contains (ustr ''complexes/single-markers'') lurl
        \<and> \<not> contains (ustr ''houses/single-markers'') lurl
        \<and> (contains (ustr ''/api/articles/complex/'') lurl
             \<or> contains (ustr ''/api/articles/house/'') lurl)
        \<and> url_cno lurl = Some c \<longrightarrow>
        count_of (fst (handle_response render s (lurl, Some (JObj d)))) c
          = (if truthy (listing_total d) \<and> gt_int (listing_total d) (count_of s c) = Some True
             then (case int_of_number (listing_total d) of
                     Inr n \<Rightarrow> n
                   | Inl e \<Rightarrow> count_of s c)
             else count_of s c)
        \<and> (\<forall>c'. c' \<noteq> c \<longrightarrow>
               complex_meta (fst (handle_response render s (lurl, Some (JObj d)))) c'
                 = complex_meta s c'))"
proof (intro conjI impI)
  assume "complex_meta s c = Some m"
  then show "\<exists>m'. complex_meta (fst (handle_response render s resp)) c = Some m'
                  \<and> meta_count m \<le> meta_count m'"
    using handle_response_counts [of s render resp] unfolding counts_le_def by blast
next
  assume "capture s \<and> (contains (ustr ''complexes/single-markers'') url
                    \<or> contains (ustr ''houses/single-markers'') url)"
  then have "fst (handle_response render s (url, Some (JList items)))
               = fst (run_items (marker_item render url) s items)"
    by (auto simp: handle_response_def marker_channel_def)
  then show "count_of (fst (handle_response render s (url, Some (JList items)))) c
          = foldl max (count_of s c) (reported_counts render url items c)"
    by (simp add: run_marker_items_count)
next
  assume a: "capture s \<and> \<not> contains (ustr ''complexes/single-markers'') lurl
        \<and> \<not> contains (ustr ''houses/single-markers'') lurl
        \<and> (contains (ustr ''/api/articles/complex/'') lurl
             \<or> contains (ustr ''/api/articles/house/'') lurl)
        \<and> url_cno lurl = Some c"
  then have h: "fst (handle_response render s (lurl, Some (JObj d)))
               = listing_channel lurl (Some (JObj d)) s"
    by (auto simp: handle_response_def)
  show "count_of (fst (handle_response render s (lurl, Some (JObj d)))) c
          = (if truthy (listing_total d) \<and> gt_int (listing_total d) (count_of s c) = Some True
             then (case int_of_number (listing_total d) of
                     Inr n \<Rightarrow> n
                   | Inl e \<Rightarrow> count_of s c)
             else count_of s c)"
    using a by (simp only: h listing_channel_count update_total_count)
  show "\<forall>c'. c' \<noteq> c \<longrightarrow>
               complex_meta (fst (handle_response render s (lurl, Some (JObj d)))) c'
                 = complex_meta s c'"
    using a by (simp add: h listing_channel_meta update_total_other)
qed

theorem reported_count_never_decreases_witness:
  "complex_meta ex_session (ustr ''101'') = Some \<lparr>meta_name = JStr [], meta_count = 3\<rparr>
   \<and> capture ex_session
   \<and> contains (ustr ''complexes/single-markers'') ex_marker_url
   \<and> \<not> contains (ustr ''complexes/single-markers'') ex_listing_url
   \<and> \<not> contains (ustr ''houses/single-markers'') ex_listing_url
   \<and> contains (ustr ''/api/articles/complex/'') ex_listing_url
   \<and> url_cno ex_listing_url = Some (ustr ''101'')
   \<and> (\<exists>m'. complex_meta
               (fst (handle_response (\<lambda>v. []) ex_session (ex_marker_url, Some (JList ex_markers))))
               (ustr ''101'') = Some m'
             \<and> 3 \<le> meta_count m')
   \<and> count_of (fst (handle_response (\<lambda>v. []) ex_session (ex_marker_url, Some (JList ex_markers))))
         (ustr ''101'') = 5
   \<and> count_of (fst (handle_response (\<lambda>v. []) ex_session (ex_listing_url, Some (JObj ex_listing))))
         (ustr ''101'') = 7"
proof -
  have h1: "complex_meta ex_session (ustr ''101'') = Some \<lparr>meta_name = JStr [], meta_count = 3\<rparr>"
    by (simp add: ex_eval)
  have h2: "capture ex_session" by (simp add: ex_eval)
  have h3: "contains (ustr ''complexes/single-markers'') ex_marker_url" by (simp add: ex_eval)
  have h4: "\<not> contains (ustr ''complexes/single-markers'') ex_listing_url" by (simp add: ex_eval)
  have h5: "\<not> contains (ustr ''houses/single-markers'') ex_listing_url" by (simp add: ex_eval)
  have h6: "contains (ustr ''/api/articles/complex/'') ex_listing_url" by (simp add: ex_eval)
  have c0: "count_of ex_session (ustr ''101'') = 3" by (simp add: count_of_def h1)
  have tot: "listing_total ex_listing = JInt 7"
    by (simp add: listing_total_def ex_eval py_or_def dict_get_def)
  note inst = reported_count_never_decreases
    [of ex_session "ustr ''101''" "\<lparr>meta_name = JStr [], meta_count = 3\<rparr>" "\<lambda>v. []"
        "(ex_marker_url, Some (JList ex_markers))" ex_marker_url ex_markers
        ex_listing_url ex_listing]
  show ?thesis
    using inst h1 h2 h3 h4 h5 h6 ex_listing_url_cno
    by (simp add: ex_reported_counts c0 tot)
qed

section \<open>Response ingestion: duplicates are dropped\<close>





















lemma add_count_isl: "isl (snd (add_count n p)) = isl (snd p)"
  by (cases p; cases "snd p") auto



lemma collect_items_obj_fst:
  "fst (collect_items s (JObj dd # its)) =
     (case fallback_item s dd (JObj dd) of
        Inl e \<Rightarrow> s
      | Inr r \<Rightarrow> fst (collect_items (fst r) its))"
  by (auto simp: add_count_fst split: prod.splits sum.splits)

lemma collect_items_obj_isl:
  "isl (snd (collect_items s (JObj dd # its))) =
     (case fallback_item s dd (JObj dd) of
        Inl e \<Rightarrow> True
      | Inr r \<Rightarrow> isl (snd (collect_items (fst r) its)))"
  by (auto simp: add_count_isl split: prod.splits sum.splits)






lemma absorbing_const: "absorbing (\<lambda>s x. (s, Inr 0)) x"
  by (simp add: absorbing_def)




























section \<open>Response ingestion: the capture flag\<close>

text \<open>
  Claim C10. While the capture flag is unset, handling a response changes nothing:
  the handler returns the session as it was (every list, every seen-set and the
  metadata store), and raises nothing.
\<close>

theorem handle_response_capture_off:
  "\<not> capture s \<Longrightarrow> handle_response render s resp = (s, None)"
  by (simp add: handle_response_def)

theorem handle_response_capture_off_witness:
  "\<not> capture fresh_session
   \<and> handle_response (\<lambda>v. []) fresh_session
         (ustr ''https://new.land.naver.com/api/complexes/single-markers/2.0'',
          Some (JList [JObj [(ustr ''markerId'', JStr (ustr ''101'')),
                             (ustr ''articleCount'', JInt 5)]]))
       = (fresh_session, None)"
  using handle_response_capture_off
    [of fresh_session "\<lambda>v. []"
        "(ustr ''https://new.land.naver.com/api/complexes/single-markers/2.0'',
          Some (JList [JObj [(ustr ''markerId'', JStr (ustr ''101'')),
                             (ustr ''articleCount'', JInt 5)]]))"]
  by (simp add: fresh_session_def)

section \<open>Grid sweep: the sample points\<close>

lemma map_raising_length: "map_raising f xs = Inr ys \<Longrightarrow> length ys = length xs"
  by (induction xs arbitrary: ys) (auto split: sum.splits)

lemma sweep_offsets_1:
  "sweep_offsets 1 = [(- 1, - 1), (- 1, 1), (0, - 1), (0, 1), (1, - 1), (1, 1)]"
  by (simp add: sweep_offsets_def upto.simps)

lemma sweep_offsets_2:
  "sweep_offsets 2 =
     [(- 1, - 1), (- 1, 1), (0, - 1), (0, 1), (1, - 1), (1, 1),
      (- 2, - 2), (- 2, 2), (- 1, - 2), (- 1, 2), (0, - 2), (0, 2), (1, - 2), (1, 2),
      (2, - 2), (2, 2)]"
  by (simp add: sweep_offsets_def upto.simps)

lemma sweep_offsets_rows:
  assumes "(dx, dy) \<in> set (sweep_offsets rings)"
  shows "\<exists>r. 1 \<le> r \<and> r \<le> rings \<and> - r \<le> dx \<and> dx \<le> r \<and> (dy = - r \<or> dy = r)"
  using assms by (auto simp: sweep_offsets_def)

text \<open>
  Claim C8. The sweep takes its sample points only from the top and the bottom row of
  each ring: every offset has \<open>dy = -r\<close> or \<open>dy = r\<close> for its ring \<open>r\<close>. With one ring the
  offsets are the 6 of the rows -1 and 1, with two rings 16 (6 and 10); and when no
  projection call raises, \<open>grid_sweep\<close> generates exactly that many points.
\<close>

theorem grid_sweep_point_count:
  "sweep_offsets 1 = [(- 1, - 1), (- 1, 1), (0, - 1), (0, 1), (1, - 1), (1, 1)]
   \<and> length (sweep_offsets 2) = 16
   \<and> ((dx, dy) \<in> set (sweep_offsets rings) \<longrightarrow>
        (\<exists>r. 1 \<le> r \<and> r \<le> rings \<and> - r \<le> dx \<and> dx \<le> r \<and> (dy = - r \<or> dy = r)))
   \<and> (grid_sweep_coords ll_to_pixel pixel_to_ll offset lat lon zoom 1 step_px = Inr cs1 \<longrightarrow>
        length cs1 = 6)
   \<and> (grid_sweep_coords ll_to_pixel pixel_to_ll offset lat lon zoom 2 step_px = Inr cs2 \<longrightarrow>
        length cs2 = 16)"
proof (intro conjI impI)
  show "sweep_offsets 1 = [(- 1, - 1), (- 1, 1), (0, - 1), (0, 1), (1, - 1), (1, 1)]"
    by (rule sweep_offsets_1)
  show "length (sweep_offsets 2) = 16" by (simp add: sweep_offsets_2)
next
  assume "(dx, dy) \<in> set (sweep_offsets rings)"
  then show "\<exists>r. 1 \<le> r \<and> r \<le> rings \<and> - r \<le> dx \<and> dx \<le> r \<and> (dy = - r \<or> dy = r)"
    by (rule sweep_offsets_rows)
next
  assume "grid_sweep_coords ll_to_pixel pixel_to_ll offset lat lon zoom 1 step_px = Inr cs1"
  then have "length cs1 = length (sweep_offsets 1)"
    by (auto simp: grid_sweep_coords_def dest: map_raising_length split: sum.splits prod.splits)
  then show "length cs1 = 6" by (simp add: sweep_offsets_1)
next
  assume "grid_sweep_coords ll_to_pixel pixel_to_ll offset lat lon zoom 2 step_px = Inr cs2"
  then have "length cs2 = length (sweep_offsets 2)"
    by (auto simp: grid_sweep_coords_def dest: map_raising_length split: sum.splits prod.splits)
  then show "length cs2 = 16" by (simp add: sweep_offsets_2)
qed

text \<open>
  The same at a concrete input: projections that do not raise (the identity on the
  coordinates, over the integers), centre (1000, 2000), step 480.
\<close>

theorem grid_sweep_point_count_witness:
  "(- 1, 1) \<in> set (sweep_offsets 1)
   \<and> grid_sweep_coords (\<lambda>lat lon z. Inr (lat, lon)) (\<lambda>x y z. Inr (x, y)) (\<lambda>c d step. c + d * step)
        (1000::int) 2000 15 1 480
       = Inr [(520, 1520), (520, 2480), (1000, 1520), (1000, 2480), (1480, 1520), (1480, 2480)]
   \<and> (\<exists>cs. grid_sweep_coords (\<lambda>lat lon z. Inr (lat, lon)) (\<lambda>x y z. Inr (x, y))
              (\<lambda>c d step. c + d * step) (1000::int) 2000 15 2 480 = Inr cs)
   \<and> (\<exists>r. 1 \<le> r \<and> r \<le> (1::int) \<and> - r \<le> (- 1::int) \<and> (- 1::int) \<le> r \<and> ((1::int) = - r \<or> (1::int) = r))
   \<and> length [(520::int, 1520::int), (520, 2480), (1000, 1520), (1000, 2480), (1480, 1520), (1480, 2480)] = 6
   \<and> length (sweep_offsets 2) = 16"
proof -
  have a: "(- 1, 1) \<in> set (sweep_offsets 1)" by (simp add: sweep_offsets_1)
  have b: "grid_sweep_coords (\<lambda>lat lon z. Inr (lat, lon)) (\<lambda>x y z. Inr (x, y)) (\<lambda>c d step. c + d * step)
        (1000::int) 2000 15 1 480
       = Inr [(520, 1520), (520, 2480), (1000, 1520), (1000, 2480), (1480, 1520), (1480, 2480)]"
    by (simp add: grid_sweep_coords_def sweep_offsets_1)
  have c: "\<exists>cs. grid_sweep_coords (\<lambda>lat lon z. Inr (lat, lon)) (\<lambda>x y z. Inr (x, y))
              (\<lambda>c d step. c + d * step) (1000::int) 2000 15 2 480 = Inr cs"
    by (simp add: grid_sweep_coords_def sweep_offsets_2)
  show ?thesis
    using a b c
      grid_sweep_point_count [of "- 1" 1 1 "\<lambda>lat lon z. Inr (lat, lon)" "\<lambda>x y z. Inr (x, y)"
        "\<lambda>c d step. c + d * step" "1000::int" 2000 15 480
        "[(520, 1520), (520, 2480), (1000, 1520), (1000, 2480), (1480, 1520), (1480, 2480)]"]
    by simp
qed

end
